theory Spec2Isabelle
  imports Complex_Main
begin

section \<open>Strings and numbers of the JavaScript runtime\<close>

text \<open>
  A string is a list of characters, each standing for one UTF-16 code unit below 256
  (code points above U+00FF are outside the model). \<open>\d\<close> of a JavaScript regular
  expression matches the ten ASCII digits only. \<open>String.prototype.trim\<close> removes white
  space and line terminators from both ends; below 256 these are U+0009 to U+000D, the
  space U+0020 and the no-break space U+00A0.
\<close>

definition isDigit :: "char \<Rightarrow> bool" where
  "isDigit c = (c \<in> set ''0123456789'')"

definition isSpace :: "char \<Rightarrow> bool" where
  "isSpace c = (c \<in> set [CHR 0x09, CHR 0x0A, CHR 0x0B, CHR 0x0C, CHR 0x0D, CHR 0x20, CHR 0xA0])"

definition trim :: "string \<Rightarrow> string" where
  "trim s = rev (dropWhile isSpace (rev (dropWhile isSpace s)))"

definition startsWith :: "string \<Rightarrow> string \<Rightarrow> bool" where
  "startsWith s p = (take (length p) s = p)"

text \<open>\<open>s.replace(/\D/g, '')\<close>: every character that is not a digit is deleted.\<close>

definition stripNonDigits :: "string \<Rightarrow> string" where
  "stripNonDigits s = filter isDigit s"

text \<open>\<open>s.substring(0, n)\<close> for \<open>n \<ge> 0\<close>.\<close>

definition substring0 :: "nat \<Rightarrow> string \<Rightarrow> string" where
  "substring0 n s = take n s"

text \<open>
  \<open>Number.prototype.toString\<close> (and the conversion inside a template literal) of a
  non-negative integer: its decimal digits, most significant first.
\<close>

definition digitChar :: "nat \<Rightarrow> char" where
  "digitChar d = ''0123456789'' ! d"

fun toString :: "nat \<Rightarrow> string" where
  "toString n = (if n < 10 then [digitChar n] else toString (n div 10) @ [digitChar (n mod 10)])"

declare toString.simps [simp del]

section \<open>Web storage\<close>

text \<open>
  A storage area is a list of key/value entries. \<open>getItem\<close> returns \<open>None\<close> for
  JavaScript's \<open>null\<close>; \<open>setItem\<close> overwrites the entry of the key or adds one;
  \<open>removeItem\<close> deletes it; \<open>keys\<close> is \<open>Object.keys(storage)\<close>.
\<close>

definition getItem :: "string \<Rightarrow> (string \<times> 'v) list \<Rightarrow> 'v option" where
  "getItem k s = map_of s k"

fun setItem :: "string \<Rightarrow> 'v \<Rightarrow> (string \<times> 'v) list \<Rightarrow> (string \<times> 'v) list" where
  "setItem k v [] = [(k, v)]"
| "setItem k v (e # s) = (if fst e = k then (k, v) # s else e # setItem k v s)"

definition removeItem :: "string \<Rightarrow> (string \<times> 'v) list \<Rightarrow> (string \<times> 'v) list" where
  "removeItem k s = filter (\<lambda>e. fst e \<noteq> k) s"

definition keys :: "(string \<times> 'v) list \<Rightarrow> string list" where
  "keys s = map fst s"

section \<open>The data model (types/index.ts)\<close>

text \<open>
  The interfaces \<open>User\<close>, \<open>Chatroom\<close> and \<open>Message\<close>. A \<open>User\<close> held by the session
  hook comes out of \<open>JSON.parse\<close>, which is typed \<open>any\<close>: the three properties read from
  the parsed value are \<open>None\<close> where the value does not have them (\<open>undefined\<close>).
  \<open>Credentials\<close> is the argument type of \<open>login\<close> and of \<open>onAuthenticated\<close>,
  \<open>{id: string; phone: string; countryCode: string}\<close>.
\<close>

record Credentials =
  cr_id :: string
  cr_phone :: string
  cr_countryCode :: string

record User =
  u_id :: "string option"
  u_phone :: "string option"
  u_countryCode :: "string option"
  u_createdAt :: string

record Chatroom =
  c_id :: string
  c_name :: string
  c_lastMessage :: "string option"
  c_lastMessageTime :: "string option"
  c_userId :: "string option"
  c_createdAt :: string

record Message =
  m_id :: string
  m_content :: string
  m_isUser :: bool
  m_timestamp :: string
  m_chatroomId :: string
  m_imageUrl :: "string option"

record AuthState =
  user :: "User option"
  isLoading :: bool
  isAuthenticated :: bool

text \<open>
  An entry of \<open>localStorage\<close> is a text; the application only ever hands it to
  \<open>JSON.parse\<close> (after a truthiness test), so the model keeps what the text is to
  \<open>JSON.parse\<close>: the empty string (falsy), a text on which \<open>JSON.parse\<close> throws, or
  the \<open>JSON.stringify\<close> image of one of the values the application stores: an object
  with the properties \<open>id\<close>, \<open>phone\<close>, \<open>countryCode\<close> (each possibly missing), a list of
  chatrooms, a list of messages. \<open>sessionStorage\<close> holds plain strings.
\<close>

datatype stored =
    Blank
  | Unparsable
  | UserText "string option" "string option" "string option"
  | RoomsText "Chatroom list"
  | MsgsText "Message list"

type_synonym localStorage = "(string \<times> stored) list"
type_synonym sessionStorage = "(string \<times> string) list"

section \<open>The session hook (hooks/useOTPAuth)\<close>

definition initialAuthState :: AuthState where
  "initialAuthState = \<lparr>user = None, isLoading = True, isAuthenticated = False\<rparr>"

definition signedOut :: AuthState where
  "signedOut = \<lparr>user = None, isLoading = False, isAuthenticated = False\<rparr>"

text \<open>
  \<open>checkAuthState\<close>, run once when the hook mounts; \<open>now\<close> is
  \<open>new Date().toISOString()\<close>. The object spread \<open>{...user, createdAt: now}\<close> of any
  parsed value is an object, never \<open>null\<close>; of a parsed list it has none of the three
  properties.
\<close>

definition checkAuthState :: "string \<Rightarrow> localStorage \<Rightarrow> AuthState" where
  "checkAuthState now ls =
     (case getItem ''otpUser'' ls of
        None \<Rightarrow> signedOut
      | Some Blank \<Rightarrow> signedOut
      | Some Unparsable \<Rightarrow> signedOut
      | Some (UserText i p c) \<Rightarrow>
          \<lparr>user = Some \<lparr>u_id = i, u_phone = p, u_countryCode = c, u_createdAt = now\<rparr>,
           isLoading = False, isAuthenticated = True\<rparr>
      | Some (RoomsText rs) \<Rightarrow>
          \<lparr>user = Some \<lparr>u_id = None, u_phone = None, u_countryCode = None, u_createdAt = now\<rparr>,
           isLoading = False, isAuthenticated = True\<rparr>
      | Some (MsgsText ms) \<Rightarrow>
          \<lparr>user = Some \<lparr>u_id = None, u_phone = None, u_countryCode = None, u_createdAt = now\<rparr>,
           isLoading = False, isAuthenticated = True\<rparr>)"

text \<open>\<open>JSON.stringify\<close> of the credentials object.\<close>

definition stringifyUser :: "Credentials \<Rightarrow> stored" where
  "stringifyUser u = UserText (Some (cr_id u)) (Some (cr_phone u)) (Some (cr_countryCode u))"

text \<open>
  \<open>login\<close>: the stored text is that of the argument, without \<open>createdAt\<close>; the state gets
  the argument with \<open>createdAt = now\<close>.
\<close>

definition login :: "string \<Rightarrow> Credentials \<Rightarrow> localStorage \<Rightarrow> localStorage \<times> AuthState" where
  "login now u ls =
     (setItem ''otpUser'' (stringifyUser u) ls,
      \<lparr>user = Some \<lparr>u_id = Some (cr_id u), u_phone = Some (cr_phone u),
                     u_countryCode = Some (cr_countryCode u), u_createdAt = now\<rparr>,
       isLoading = False, isAuthenticated = True\<rparr>)"

text \<open>
  \<open>logout\<close>: removes the session entry and the challenge, then walks the keys of
  \<open>localStorage\<close> and removes every key that starts with \<open>chatrooms_\<close> or
  \<open>messages_\<close>. The page reload that follows restarts the application, which runs
  \<open>checkAuthState\<close> again on the storage left behind.
\<close>

definition wipeKey :: "string \<Rightarrow> localStorage \<Rightarrow> localStorage" where
  "wipeKey key ls =
     (if startsWith key ''chatrooms_'' \<or> startsWith key ''messages_''
      then removeItem key ls else ls)"

definition logout :: "localStorage \<Rightarrow> sessionStorage \<Rightarrow> localStorage \<times> sessionStorage \<times> AuthState" where
  "logout ls ss =
     (let ls1 = removeItem ''otpUser'' ls;
          ss1 = removeItem ''otpPhone'' (removeItem ''otp'' ss);
          ls2 = fold wipeKey (keys ls1) ls1
      in (ls2, ss1, signedOut))"

text \<open>
  The shorter revision of the hook that the sources also hold (its \<open>logout\<close> has no loop
  over the keys and no reload) removes the session entry and the challenge only.
\<close>

definition logout_short :: "localStorage \<Rightarrow> sessionStorage \<Rightarrow> localStorage \<times> sessionStorage \<times> AuthState" where
  "logout_short ls ss =
     (removeItem ''otpUser'' ls, removeItem ''otpPhone'' (removeItem ''otp'' ss), signedOut)"

text \<open>The invariant of the session state.\<close>

definition sessionInvariant :: "AuthState \<Rightarrow> bool" where
  "sessionInvariant st = (isAuthenticated st = (user st \<noteq> None))"

section \<open>Loading the chatroom list (components/Dashboard)\<close>

text \<open>
  The storage key of a user's chatroom list is the template literal
  \<open>`chatrooms_${user.id}`\<close>; an undefined \<open>id\<close> prints as \<open>undefined\<close>.
\<close>

definition chatroomsKey :: "User \<Rightarrow> string" where
  "chatroomsKey u = ''chatrooms_'' @ (case u_id u of Some i \<Rightarrow> i | None \<Rightarrow> ''undefined'')"

text \<open>
  The effect that loads the list when the dashboard gets its user: the state (initially
  the empty list) is replaced only if there is a user and a non-empty saved text. The
  result is \<open>None\<close> where \<open>JSON.parse\<close> throws or yields something that is not a list
  of chatrooms.
\<close>

definition loadChatrooms :: "User option \<Rightarrow> localStorage \<Rightarrow> Chatroom list \<Rightarrow> Chatroom list option" where
  "loadChatrooms usr ls current =
     (case usr of
        None \<Rightarrow> Some current
      | Some u \<Rightarrow>
          (case getItem (chatroomsKey u) ls of
             None \<Rightarrow> Some current
           | Some Blank \<Rightarrow> Some current
           | Some (RoomsText rs) \<Rightarrow> Some rs
           | Some Unparsable \<Rightarrow> None
           | Some (UserText i p c) \<Rightarrow> None
           | Some (MsgsText ms) \<Rightarrow> None))"

section \<open>The sign-in form (components/OTPAuth)\<close>

datatype step = StepPhone | StepOtp | StepVerified

record OTPState =
  o_step :: step
  o_phone :: string
  o_countryCode :: string
  o_otp :: string
  o_isLoading :: bool
  o_error :: "string option"
  o_timeLeft :: int
  o_canResend :: bool

definition initialOTPState :: OTPState where
  "initialOTPState =
     \<lparr>o_step = StepPhone, o_phone = [], o_countryCode = ''+1'', o_otp = [],
      o_isLoading = False, o_error = None, o_timeLeft = 0, o_canResend = True\<rparr>"

text \<open>The \<open>onChange\<close> handlers of the two inputs, and the callback of the one-second interval.\<close>

definition onPhoneChange :: "string \<Rightarrow> OTPState \<Rightarrow> OTPState" where
  "onPhoneChange v prev = prev\<lparr>o_phone := stripNonDigits v, o_error := None\<rparr>"

definition onOtpChange :: "string \<Rightarrow> OTPState \<Rightarrow> OTPState" where
  "onOtpChange v prev = prev\<lparr>o_otp := take 6 (stripNonDigits v), o_error := None\<rparr>"

definition tick :: "OTPState \<Rightarrow> OTPState" where
  "tick prev = prev\<lparr>o_timeLeft := o_timeLeft prev - 1, o_canResend := (o_timeLeft prev \<le> 1)\<rparr>"

text \<open>
  JavaScript numbers are IEEE 754 doubles. \<open>toDouble\<close> rounds a real number to the nearest
  double, ties to the even significand: the result is a multiple of the unit in the last
  place of the number's binade (53 significant bits, the exponent not below that of the
  subnormal numbers). Overflow to infinity, above \<open>2 ^ 1024\<close>, is not modelled. A real
  number is a double if rounding leaves it as it is.
\<close>

definition roundHalfEven :: "real \<Rightarrow> int" where
  "roundHalfEven y =
     (let f = \<lfloor>y\<rfloor>; d = y - of_int f
      in if d < 1/2 then f else if 1/2 < d then f + 1 else if even f then f else f + 1)"

definition exponent :: "real \<Rightarrow> int" where
  "exponent x = max \<lfloor>log 2 \<bar>x\<bar>\<rfloor> (- 1022)"

definition ulp :: "real \<Rightarrow> real" where
  "ulp x = 2 powr (of_int (exponent x) - 52)"

definition toDouble :: "real \<Rightarrow> real" where
  "toDouble x = of_int (roundHalfEven (x / ulp x)) * ulp x"

definition isDouble :: "real \<Rightarrow> bool" where
  "isDouble x = (toDouble x = x)"

text \<open>
  \<open>Math.floor(100000 + Math.random() * 900000).toString()\<close>, with the value \<open>r\<close> of
  \<open>Math.random()\<close> as the argument: the product and the sum are each rounded to a double,
  the floor of a double is exact.
\<close>

definition generateOTP :: "real \<Rightarrow> string" where
  "generateOTP r = toString (nat \<lfloor>toDouble (100000 + toDouble (r * 900000))\<rfloor>)"

text \<open>
  A handler reads the state of the render it was created in (\<open>cap\<close>, the captured
  \<open>otpState\<close>) and updates the current state (\<open>prev\<close>) through \<open>setOtpState\<close>.
  \<open>sendOTP\<close> returns the updated state and, if it scheduled its timeout, the state the
  timeout has captured. \<open>sendOTP_timeout\<close> is the callback that runs 1500 ms later.
\<close>

definition sendOTP :: "OTPState \<Rightarrow> OTPState \<Rightarrow> OTPState \<times> OTPState option" where
  "sendOTP cap prev =
     (if trim (o_phone cap) = []
      then (prev\<lparr>o_error := Some ''Please enter a valid phone number''\<rparr>, None)
      else (prev\<lparr>o_isLoading := True, o_error := None\<rparr>, Some cap))"

definition sendOTP_timeout :: "OTPState \<Rightarrow> real \<Rightarrow> sessionStorage \<Rightarrow> OTPState \<Rightarrow> sessionStorage \<times> OTPState" where
  "sendOTP_timeout cap r ss prev =
     (let generatedOTP = generateOTP r;
          ss1 = setItem ''otp'' generatedOTP ss;
          ss2 = setItem ''otpPhone'' (o_countryCode cap @ o_phone cap) ss1
      in (ss2, prev\<lparr>o_step := StepOtp, o_isLoading := False, o_timeLeft := 60, o_canResend := False\<rparr>))"

text \<open>
  \<open>verifyOTP\<close> and the callback of its timeout (1000 ms later); \<open>ms\<close> is \<open>Date.now()\<close>.
  The callback also returns the credentials it hands to \<open>onAuthenticated\<close> (after a
  further second), if any. It reads \<open>otpPhone\<close> too, and does not use it.
\<close>

definition verifyOTP :: "OTPState \<Rightarrow> OTPState \<Rightarrow> OTPState \<times> OTPState option" where
  "verifyOTP cap prev =
     (if trim (o_otp cap) = [] \<or> length (o_otp cap) \<noteq> 6
      then (prev\<lparr>o_error := Some ''Please enter a valid 6-digit OTP''\<rparr>, None)
      else (prev\<lparr>o_isLoading := True, o_error := None\<rparr>, Some cap))"

definition verifyOTP_timeout ::
  "OTPState \<Rightarrow> nat \<Rightarrow> sessionStorage \<Rightarrow> localStorage \<Rightarrow> OTPState
     \<Rightarrow> sessionStorage \<times> localStorage \<times> OTPState \<times> Credentials option" where
  "verifyOTP_timeout cap ms ss ls prev =
     (let storedOTP = getItem ''otp'' ss in
      if Some (o_otp cap) = storedOTP
      then (let usr = \<lparr>cr_id = ''user_'' @ toString ms, cr_phone = o_phone cap,
                        cr_countryCode = o_countryCode cap\<rparr>
            in (removeItem ''otpPhone'' (removeItem ''otp'' ss),
                setItem ''otpUser'' (stringifyUser usr) ls,
                prev\<lparr>o_step := StepVerified, o_isLoading := False\<rparr>,
                Some usr))
      else (ss, ls, prev\<lparr>o_isLoading := False, o_error := Some ''Invalid OTP. Please try again.''\<rparr>,
            None))"

definition resendOTP :: "OTPState \<Rightarrow> OTPState \<Rightarrow> OTPState \<times> OTPState option" where
  "resendOTP cap prev =
     (if o_canResend cap then sendOTP cap (prev\<lparr>o_otp := [], o_error := None\<rparr>) else (prev, None))"

definition goBack :: "OTPState \<Rightarrow> OTPState" where
  "goBack prev =
     prev\<lparr>o_step := StepPhone, o_otp := [], o_error := None, o_timeLeft := 0, o_canResend := True\<rparr>"

section \<open>Dashboard and chat view (components/Dashboard, components/Chat)\<close>

text \<open>
  The state of the two components and the storage they share. \<open>w_view\<close> is the mounted
  \<open>ChatInterface\<close>, if any: the dashboard renders it exactly while a chatroom is selected.
  Each mount is a new component instance (\<open>v_instance\<close>); a state setter of an instance
  that is no longer mounted does nothing.
\<close>

record ChatView =
  v_instance :: nat
  v_messages :: "Message list"
  v_inputValue :: string
  v_isTyping :: bool

record World =
  w_localStorage :: localStorage
  w_chatrooms :: "Chatroom list"
  w_selectedChatroom :: "Chatroom option"
  w_isCreating :: bool
  w_newChatroomName :: string
  w_view :: "ChatView option"
  w_mounts :: nat

text \<open>
  What the functions created in one render of \<open>ChatInterface\<close> have captured: the
  instance, the \<open>user\<close> of the component's own session hook, the \<open>chatroom\<close> prop, the
  \<open>messages\<close> and \<open>inputValue\<close> of that render, and, through the \<open>onUpdateChatroom\<close>
  prop, the \<open>user\<close> and the \<open>chatrooms\<close> of the dashboard render that created it.
\<close>

record Closure =
  e_instance :: nat
  e_user :: "User option"
  e_chatroom :: Chatroom
  e_messages :: "Message list"
  e_inputValue :: string
  e_dashUser :: "User option"
  e_dashRooms :: "Chatroom list"

definition render :: "User option \<Rightarrow> User option \<Rightarrow> World \<Rightarrow> Closure option" where
  "render dashUser chatUser w =
     (case (w_selectedChatroom w, w_view w) of
        (Some room, Some v) \<Rightarrow>
          Some \<lparr>e_instance = v_instance v, e_user = chatUser, e_chatroom = room,
                e_messages = v_messages v, e_inputValue = v_inputValue v,
                e_dashUser = dashUser, e_dashRooms = w_chatrooms w\<rparr>
      | _ \<Rightarrow> None)"

definition updateView :: "nat \<Rightarrow> (ChatView \<Rightarrow> ChatView) \<Rightarrow> World \<Rightarrow> World" where
  "updateView i f w =
     (case w_view w of
        Some v \<Rightarrow> if v_instance v = i then w\<lparr>w_view := Some (f v)\<rparr> else w
      | None \<Rightarrow> w)"

definition setMessages :: "nat \<Rightarrow> (Message list \<Rightarrow> Message list) \<Rightarrow> World \<Rightarrow> World" where
  "setMessages i f w = updateView i (\<lambda>v. v\<lparr>v_messages := f (v_messages v)\<rparr>) w"

definition setInputValue :: "nat \<Rightarrow> string \<Rightarrow> World \<Rightarrow> World" where
  "setInputValue i s w = updateView i (\<lambda>v. v\<lparr>v_inputValue := s\<rparr>) w"

definition setIsTyping :: "nat \<Rightarrow> bool \<Rightarrow> World \<Rightarrow> World" where
  "setIsTyping i b w = updateView i (\<lambda>v. v\<lparr>v_isTyping := b\<rparr>) w"

definition messagesKey :: "string \<Rightarrow> string" where
  "messagesKey roomId = ''messages_'' @ roomId"

subsection \<open>Dashboard\<close>

definition saveChatrooms :: "User option \<Rightarrow> Chatroom list \<Rightarrow> World \<Rightarrow> World" where
  "saveChatrooms usr rooms w =
     (case usr of
        Some u \<Rightarrow> w\<lparr>w_localStorage := setItem (chatroomsKey u) (RoomsText rooms) (w_localStorage w),
                    w_chatrooms := rooms\<rparr>
      | None \<Rightarrow> w)"

text \<open>
  \<open>createChatroom\<close>; \<open>ms\<close> is \<open>Date.now()\<close> and \<open>now\<close> is \<open>new Date().toISOString()\<close>.
  The guard returns without any effect. Selecting the new room makes the dashboard
  render the chat view, which \<open>mountChatInterface\<close> below mounts.
\<close>

definition createChatroom :: "User option \<Rightarrow> nat \<Rightarrow> string \<Rightarrow> World \<Rightarrow> World" where
  "createChatroom usr ms now w =
     (case usr of
        None \<Rightarrow> w
      | Some u \<Rightarrow>
          if trim (w_newChatroomName w) = [] then w
          else
            (let newRoom = \<lparr>c_id = ''room_'' @ toString ms, c_name = trim (w_newChatroomName w),
                            c_lastMessage = None, c_lastMessageTime = None,
                            c_userId = u_id u, c_createdAt = now\<rparr>;
                 updatedRooms = newRoom # w_chatrooms w;
                 w1 = saveChatrooms usr updatedRooms w
             in w1\<lparr>w_newChatroomName := [], w_isCreating := False,
                    w_selectedChatroom := Some newRoom\<rparr>))"

definition deleteChatroom :: "User option \<Rightarrow> string \<Rightarrow> World \<Rightarrow> World" where
  "deleteChatroom usr roomId w =
     (let updatedRooms = filter (\<lambda>r. c_id r \<noteq> roomId) (w_chatrooms w);
          w1 = saveChatrooms usr updatedRooms w;
          w2 = (case w_selectedChatroom w of
                  Some sel \<Rightarrow> if c_id sel = roomId
                              then w1\<lparr>w_selectedChatroom := None, w_view := None\<rparr> else w1
                | None \<Rightarrow> w1)
      in case usr of
           Some u \<Rightarrow> w2\<lparr>w_localStorage := removeItem (messagesKey roomId) (w_localStorage w2)\<rparr>
         | None \<Rightarrow> w2)"

text \<open>
  The \<open>onUpdateChatroom\<close> prop: \<open>usr\<close> and \<open>rooms\<close> are the \<open>user\<close> and \<open>chatrooms\<close> of
  the dashboard render that created the function.
\<close>

definition onUpdateChatroom :: "User option \<Rightarrow> Chatroom list \<Rightarrow> Chatroom \<Rightarrow> World \<Rightarrow> World" where
  "onUpdateChatroom usr rooms updatedRoom w =
     saveChatrooms usr (map (\<lambda>r. if c_id r = c_id updatedRoom then updatedRoom else r) rooms) w"

definition selectChatroom :: "Chatroom \<Rightarrow> World \<Rightarrow> World" where
  "selectChatroom room w = w\<lparr>w_selectedChatroom := Some room\<rparr>"

definition onBack :: "World \<Rightarrow> World" where
  "onBack w = w\<lparr>w_selectedChatroom := None, w_view := None\<rparr>"

subsection \<open>Chat view\<close>

text \<open>
  Mounting the chat view of the selected chatroom: a new instance whose messages are
  those saved for the chatroom, if a non-empty text is saved. The result is \<open>None\<close> where
  \<open>JSON.parse\<close> throws or yields something that is not a list of messages.
\<close>

definition newView :: "Message list \<Rightarrow> World \<Rightarrow> World" where
  "newView ms w =
     w\<lparr>w_view := Some \<lparr>v_instance = w_mounts w, v_messages = ms, v_inputValue = [],
                        v_isTyping = False\<rparr>,
       w_mounts := Suc (w_mounts w)\<rparr>"

definition mountChatInterface :: "World \<Rightarrow> World option" where
  "mountChatInterface w =
     (case w_selectedChatroom w of
        None \<Rightarrow> Some w
      | Some room \<Rightarrow>
          (case w_view w of
             Some v \<Rightarrow> Some w
           | None \<Rightarrow>
               (case getItem (messagesKey (c_id room)) (w_localStorage w) of
                  None \<Rightarrow> Some (newView [] w)
                | Some Blank \<Rightarrow> Some (newView [] w)
                | Some (MsgsText ms) \<Rightarrow> Some (newView ms w)
                | Some Unparsable \<Rightarrow> None
                | Some (UserText i p c) \<Rightarrow> None
                | Some (RoomsText rs) \<Rightarrow> None)))"

text \<open>
  \<open>saveMessages\<close> of the render \<open>env\<close>: writes the list, sets the state, and, for a
  non-empty list, hands the chatroom prop with the preview of the last message to
  \<open>onUpdateChatroom\<close>.
\<close>

definition saveMessages :: "Closure \<Rightarrow> Message list \<Rightarrow> World \<Rightarrow> World" where
  "saveMessages env newMessages w =
     (let w1 = w\<lparr>w_localStorage :=
                   setItem (messagesKey (c_id (e_chatroom env))) (MsgsText newMessages)
                     (w_localStorage w)\<rparr>;
          w2 = setMessages (e_instance env) (\<lambda>_. newMessages) w1
      in if length newMessages > 0
         then (let lastMessage = last newMessages;
                   updatedChatroom = (e_chatroom env)
                     \<lparr>c_lastMessage := Some (substring0 100 (m_content lastMessage)),
                      c_lastMessageTime := Some (m_timestamp lastMessage)\<rparr>
               in onUpdateChatroom (e_dashUser env) (e_dashRooms env) updatedChatroom w2)
         else w2)"

text \<open>
  \<open>sendMessage\<close> returns the new state and, if it went past its guard, the closure its
  timeout has captured; \<open>sendMessage_timeout\<close> is the callback 1000 ms later. The
  \<open>setTimeout\<close> call is all the \<open>try\<close> block holds, so the \<open>catch\<close> branch (which would
  save a fallback reply through \<open>saveMessages\<close>) is never entered.
\<close>

definition sendMessage :: "Closure \<Rightarrow> nat \<Rightarrow> string \<Rightarrow> World \<Rightarrow> World \<times> Closure option" where
  "sendMessage env ms now w =
     (if trim (e_inputValue env) = [] \<or> e_user env = None then (w, None)
      else
        (let userMessage = \<lparr>m_id = ''msg_'' @ toString ms, m_content = trim (e_inputValue env),
                            m_isUser = True, m_timestamp = now,
                            m_chatroomId = c_id (e_chatroom env), m_imageUrl = None\<rparr>;
             newMessages = e_messages env @ [userMessage];
             w1 = saveMessages env newMessages w;
             w2 = setInputValue (e_instance env) [] w1;
             w3 = setIsTyping (e_instance env) True w2
         in (w3, Some env)))"

definition sendMessage_timeout :: "Closure \<Rightarrow> nat \<Rightarrow> string \<Rightarrow> World \<Rightarrow> World" where
  "sendMessage_timeout env ms now w =
     (let aiMessage = \<lparr>m_id = ''msg_'' @ toString ms @ ''_ai'',
                       m_content = ''This is a simulated AI response.'',
                       m_isUser = False, m_timestamp = now,
                       m_chatroomId = c_id (e_chatroom env), m_imageUrl = None\<rparr>;
          w1 = setMessages (e_instance env) (\<lambda>prev. prev @ [aiMessage]) w
      in setIsTyping (e_instance env) False w1)"

text \<open>
  \<open>handleImageUpload\<close>: with a file (its name and its content as a data URL) and a user it
  starts the reader, whose \<open>onload\<close> callback saves the image message and schedules the
  reply; \<open>handleImageUpload_timeout\<close> is that reply, 1500 ms later, with the list
  \<open>newMessages\<close> it has captured.
\<close>

definition handleImageUpload :: "Closure \<Rightarrow> (string \<times> string) option \<Rightarrow> (Closure \<times> string \<times> string) option" where
  "handleImageUpload env file =
     (case file of
        None \<Rightarrow> None
      | Some (name, dataUrl) \<Rightarrow> if e_user env = None then None else Some (env, name, dataUrl))"

definition handleImageUpload_onload ::
  "Closure \<Rightarrow> string \<Rightarrow> string \<Rightarrow> nat \<Rightarrow> string \<Rightarrow> World \<Rightarrow> World \<times> Message list" where
  "handleImageUpload_onload env name imageUrl ms now w =
     (let imageMessage = \<lparr>m_id = ''msg_'' @ toString ms @ ''_img'',
                          m_content = ''Shared an image: '' @ name,
                          m_isUser = True, m_timestamp = now,
                          m_chatroomId = c_id (e_chatroom env), m_imageUrl = Some imageUrl\<rparr>;
          newMessages = e_messages env @ [imageMessage];
          w1 = saveMessages env newMessages w
      in (setIsTyping (e_instance env) True w1, newMessages))"

definition handleImageUpload_timeout ::
  "Closure \<Rightarrow> Message list \<Rightarrow> nat \<Rightarrow> string \<Rightarrow> World \<Rightarrow> World" where
  "handleImageUpload_timeout env newMessages ms now w =
     (let aiResponse = \<lparr>m_id = ''msg_'' @ toString ms @ ''_ai_img'',
                        m_content = ''I can see you've shared an image! While I can't analyze images in this demo, I'd be happy to help you with any questions about it.'',
                        m_isUser = False, m_timestamp = now,
                        m_chatroomId = c_id (e_chatroom env), m_imageUrl = None\<rparr>;
          finalMessages = newMessages @ [aiResponse];
          w1 = saveMessages env finalMessages w
      in setIsTyping (e_instance env) False w1)"

section \<open>Example data\<close>

text \<open>Concrete states on which the results below are evaluated.\<close>

definition demoRoom :: Chatroom where
  "demoRoom = \<lparr>c_id = ''room_1'', c_name = ''Demo'', c_lastMessage = None,
               c_lastMessageTime = None, c_userId = Some ''user_1'', c_createdAt = ''t0''\<rparr>"

definition demoStorage :: localStorage where
  "demoStorage =
     [(''otpUser'', UserText (Some ''user_1'') (Some ''5551234'') (Some ''+1'')),
      (''theme'', Unparsable),
      (''chatrooms_user_1'', RoomsText [demoRoom]),
      (''messages_room_1'', MsgsText [])]"

definition demoCredentials :: Credentials where
  "demoCredentials = \<lparr>cr_id = ''user_1'', cr_phone = ''5551234'', cr_countryCode = ''+1''\<rparr>"

definition challenged :: sessionStorage where
  "challenged = fst (sendOTP_timeout (onPhoneChange ''5551234'' initialOTPState) (1/2)
                      [(''otp'', ''123456'')] initialOTPState)"

definition demoUser :: User where
  "demoUser = \<lparr>u_id = Some ''user_1'', u_phone = Some ''5551234'', u_countryCode = Some ''+1'',
               u_createdAt = ''t0''\<rparr>"

definition otherRoom :: Chatroom where
  "otherRoom = \<lparr>c_id = ''room_2'', c_name = ''Other'', c_lastMessage = Some ''earlier'',
                c_lastMessageTime = Some ''t0'', c_userId = Some ''user_1'', c_createdAt = ''t0''\<rparr>"

definition demoWorld :: World where
  "demoWorld =
     \<lparr>w_localStorage = demoStorage, w_chatrooms = [otherRoom, demoRoom],
      w_selectedChatroom = Some demoRoom, w_isCreating = False, w_newChatroomName = [],
      w_view = Some \<lparr>v_instance = 0, v_messages = [], v_inputValue = ''Hello'', v_isTyping = False\<rparr>,
      w_mounts = 1\<rparr>"

definition demoEnv :: Closure where
  "demoEnv = \<lparr>e_instance = 0, e_user = Some demoUser, e_chatroom = demoRoom, e_messages = [],
              e_inputValue = ''Hello'', e_dashUser = Some demoUser,
              e_dashRooms = [otherRoom, demoRoom]\<rparr>"

definition helloMessage :: Message where
  "helloMessage = \<lparr>m_id = ''msg_2000'', m_content = ''Hello'', m_isUser = True,
                    m_timestamp = ''t2'', m_chatroomId = ''room_1'', m_imageUrl = None\<rparr>"

subsection \<open>A conversation in a fresh chatroom\<close>

text \<open>
  The scenario: a signed-in user creates the chatroom "Trip Planning" (clock 1000), the
  chat view mounts, the user types "Hello" and sends it (clock 2000), and the timeout of
  \<open>sendMessage\<close> fires (clock 3000).
\<close>

definition tripStart :: World where
  "tripStart =
     \<lparr>w_localStorage = [(''otpUser'', UserText (Some ''user_1'') (Some ''5551234'') (Some ''+1''))],
      w_chatrooms = [], w_selectedChatroom = None, w_isCreating = True,
      w_newChatroomName = ''Trip Planning'', w_view = None, w_mounts = 0\<rparr>"

definition tripRoom :: Chatroom where
  "tripRoom = \<lparr>c_id = ''room_1000'', c_name = ''Trip Planning'', c_lastMessage = None,
               c_lastMessageTime = None, c_userId = Some ''user_1'', c_createdAt = ''t1''\<rparr>"

definition tripOpened :: World where
  "tripOpened = newView [] (createChatroom (Some demoUser) 1000 ''t1'' tripStart)"

definition tripEnv :: Closure where
  "tripEnv = \<lparr>e_instance = 0, e_user = Some demoUser, e_chatroom = tripRoom, e_messages = [],
              e_inputValue = ''Hello'', e_dashUser = Some demoUser, e_dashRooms = [tripRoom]\<rparr>"

definition tripHello :: Message where
  "tripHello = \<lparr>m_id = ''msg_2000'', m_content = ''Hello'', m_isUser = True,
                m_timestamp = ''t2'', m_chatroomId = ''room_1000'', m_imageUrl = None\<rparr>"

definition tripReply :: Message where
  "tripReply = \<lparr>m_id = ''msg_3000_ai'', m_content = ''This is a simulated AI response.'',
                m_isUser = False, m_timestamp = ''t3'', m_chatroomId = ''room_1000'',
                m_imageUrl = None\<rparr>"

definition tripSent :: World where
  "tripSent = fst (sendMessage tripEnv 2000 ''t2'' (setInputValue 0 ''Hello'' tripOpened))"

definition tripReplied :: World where
  "tripReplied = sendMessage_timeout tripEnv 3000 ''t3'' tripSent"

subsection \<open>A reply that fires after its chatroom was deleted\<close>

text \<open>
  The scenario: in the chat view of "Trip Planning" the user shares an image (clock 2000),
  goes back to the dashboard and deletes the chatroom; then the timeout of the image
  reply fires (clock 3500) with what it captured.
\<close>

definition imgEnv :: Closure where
  "imgEnv = tripEnv\<lparr>e_inputValue := []\<rparr>"

definition imgMessage :: Message where
  "imgMessage = \<lparr>m_id = ''msg_2000_img'', m_content = ''Shared an image: cat.png'',
                 m_isUser = True, m_timestamp = ''t2'', m_chatroomId = ''room_1000'',
                 m_imageUrl = Some ''data:image/png;base64,AAAA''\<rparr>"

definition imgSent :: World where
  "imgSent = fst (handleImageUpload_onload imgEnv ''cat.png'' ''data:image/png;base64,AAAA''
                    2000 ''t2'' tripOpened)"

definition imgDeleted :: World where
  "imgDeleted = deleteChatroom (Some demoUser) ''room_1000'' (onBack imgSent)"

definition imgReplied :: World where
  "imgReplied = handleImageUpload_timeout imgEnv [imgMessage] 3500 ''t3'' imgDeleted"

subsection \<open>A late image reply while another chatroom is in use\<close>

text \<open>
  The scenario: in the chat view of "Demo" (\<open>room_1\<close>) the user shares an image (clock
  2000), goes back, opens "Other" (\<open>room_2\<close>) and sends "Hi B" there (clock 2500); then
  the timeout of the image reply fires (clock 3500) with what it captured.
\<close>

definition catMessage :: Message where
  "catMessage = \<lparr>m_id = ''msg_2000_img'', m_content = ''Shared an image: cat.png'',
                 m_isUser = True, m_timestamp = ''t2'', m_chatroomId = ''room_1'',
                 m_imageUrl = Some ''data:image/png;base64,AAAA''\<rparr>"

definition staleSent :: World where
  "staleSent = fst (handleImageUpload_onload demoEnv ''cat.png'' ''data:image/png;base64,AAAA''
                      2000 ''t2'' demoWorld)"

definition staleOpened :: World where
  "staleOpened = newView [] (selectChatroom otherRoom (onBack staleSent))"

definition otherEnv :: Closure where
  "otherEnv = \<lparr>e_instance = 1, e_user = Some demoUser, e_chatroom = otherRoom, e_messages = [],
               e_inputValue = ''Hi B'', e_dashUser = Some demoUser,
               e_dashRooms = [otherRoom, demoRoom\<lparr>c_lastMessage := Some ''Shared an image: cat.png'',
                                                    c_lastMessageTime := Some ''t2''\<rparr>]\<rparr>"

definition hiMessage :: Message where
  "hiMessage = \<lparr>m_id = ''msg_2500'', m_content = ''Hi B'', m_isUser = True,
                m_timestamp = ''t25'', m_chatroomId = ''room_2'', m_imageUrl = None\<rparr>"

definition staleChatted :: World where
  "staleChatted = fst (sendMessage otherEnv 2500 ''t25'' (setInputValue 1 ''Hi B'' staleOpened))"

definition staleReplied :: World where
  "staleReplied = handleImageUpload_timeout demoEnv [catMessage] 3500 ''t3'' staleChatted"

subsection \<open>Two chatrooms created at one clock reading\<close>

text \<open>
  The scenario: "Trip Planning" is created, the user goes back and creates "Budget", and
  \<open>Date.now()\<close> returns 1000 both times.
\<close>

definition twiceCreated :: World where
  "twiceCreated =
     createChatroom (Some demoUser) 1000 ''t1''
       ((onBack (createChatroom (Some demoUser) 1000 ''t1'' tripStart))
          \<lparr>w_newChatroomName := ''Budget''\<rparr>)"

chapter \<open>Results\<close>

text \<open>
  Helper lemmas come first in each section; the theorem of each claim follows the text
  that states it.
\<close>

section \<open>Facts about storage\<close>

lemma getItem_setItem:
  "getItem k' (setItem k v s) = (if k' = k then Some v else getItem k' s)"
  by (induction s) (auto simp: getItem_def)

lemma getItem_removeItem:
  "getItem k' (removeItem k s) = (if k' = k then None else getItem k' s)"
  by (induction s) (auto simp: getItem_def removeItem_def)

lemma getItem_wipeKey:
  "getItem k (wipeKey key ls) =
     (if k = key \<and> (startsWith key ''chatrooms_'' \<or> startsWith key ''messages_'')
      then None else getItem k ls)"
  by (simp add: wipeKey_def getItem_removeItem)

lemma getItem_fold_wipeKey:
  "getItem k (fold wipeKey ks ls) =
     (if k \<in> set ks \<and> (startsWith k ''chatrooms_'' \<or> startsWith k ''messages_'')
      then None else getItem k ls)"
  by (induction ks arbitrary: ls) (auto simp: getItem_wipeKey)

lemma getItem_None_iff: "getItem k s = None \<longleftrightarrow> k \<notin> set (keys s)"
  by (simp add: getItem_def keys_def map_of_eq_None_iff)

section \<open>The session hook: results\<close>

lemma startsWith_chatroomsKey: "startsWith (chatroomsKey u) ''chatrooms_''"
  by (simp add: startsWith_def chatroomsKey_def)

lemma logout_localStorage:
  "getItem k (fst (logout ls ss)) =
     (if k = ''otpUser'' \<or> startsWith k ''chatrooms_'' \<or> startsWith k ''messages_''
      then None else getItem k ls)"
proof -
  let ?ls1 = "removeItem ''otpUser'' ls"
  have "getItem k (fst (logout ls ss)) = getItem k (fold wipeKey (keys ?ls1) ?ls1)"
    by (simp add: logout_def Let_def)
  also have "\<dots> = (if k \<in> set (keys ?ls1) \<and> (startsWith k ''chatrooms_'' \<or> startsWith k ''messages_'')
                   then None else getItem k ?ls1)"
    by (rule getItem_fold_wipeKey)
  also have "\<dots> = (if startsWith k ''chatrooms_'' \<or> startsWith k ''messages_''
                   then None else getItem k ?ls1)"
    using getItem_None_iff [of k ?ls1] by auto
  also have "\<dots> = (if k = ''otpUser'' \<or> startsWith k ''chatrooms_'' \<or> startsWith k ''messages_''
                   then None else getItem k ls)"
    by (simp add: getItem_removeItem)
  finally show ?thesis .
qed

lemma logout_sessionStorage:
  "getItem k (fst (snd (logout ls ss))) =
     (if k = ''otp'' \<or> k = ''otpPhone'' then None else getItem k ss)"
  by (simp add: logout_def Let_def getItem_removeItem)

lemma logout_state: "snd (snd (logout ls ss)) = signedOut"
  by (simp add: logout_def Let_def)

lemma checkAuthState_no_entry: "getItem ''otpUser'' ls = None \<Longrightarrow> checkAuthState now ls = signedOut"
  by (simp add: checkAuthState_def)

text \<open>
  The \<open>logout\<close> of the longer revision. Afterwards \<open>localStorage\<close> has no \<open>otpUser\<close> entry
  and no entry whose key starts with \<open>chatrooms_\<close> or \<open>messages_\<close>, whatever the user; every
  other entry is as before; the challenge entries of \<open>sessionStorage\<close> are gone. Restoring
  the session from that storage gives the signed-out state (not authenticated, no user),
  and the chatroom list loaded for any user is empty.
\<close>

theorem logout_wipes_all_user_data:
  assumes "logout ls ss = (ls', ss', st)"
  shows "getItem ''otpUser'' ls' = None
       \<and> (\<forall>k. startsWith k ''chatrooms_'' \<or> startsWith k ''messages_'' \<longrightarrow> getItem k ls' = None)
       \<and> (\<forall>k. k \<noteq> ''otpUser'' \<and> \<not> startsWith k ''chatrooms_'' \<and> \<not> startsWith k ''messages_''
              \<longrightarrow> getItem k ls' = getItem k ls)
       \<and> getItem ''otp'' ss' = None \<and> getItem ''otpPhone'' ss' = None
       \<and> st = signedOut
       \<and> isAuthenticated (checkAuthState now ls') = False
       \<and> user (checkAuthState now ls') = None
       \<and> (\<forall>u. getItem (chatroomsKey u) ls' = None \<and> loadChatrooms (Some u) ls' [] = Some [])"
proof -
  have ls': "ls' = fst (logout ls ss)" and ss': "ss' = fst (snd (logout ls ss))"
    and st: "st = snd (snd (logout ls ss))"
    using assms by simp_all
  have user_gone: "getItem ''otpUser'' ls' = None"
    by (simp add: ls' logout_localStorage)
  have rooms_gone: "getItem (chatroomsKey u) ls' = None" for u
    by (simp add: ls' logout_localStorage startsWith_chatroomsKey)
  have "checkAuthState now ls' = signedOut"
    using user_gone by (rule checkAuthState_no_entry)
  moreover have "loadChatrooms (Some u) ls' [] = Some []" for u
    by (simp add: loadChatrooms_def rooms_gone)
  ultimately show ?thesis
    using user_gone rooms_gone
    by (simp add: ls' ss' st logout_localStorage logout_sessionStorage logout_state signedOut_def)
qed

theorem logout_wipes_all_user_data_witness:
  "logout demoStorage [(''otp'', ''123456''), (''otpPhone'', ''+15551234'')]
     = ([(''theme'', Unparsable)], [], signedOut)
   \<and> getItem ''chatrooms_user_1'' [(''theme'', Unparsable)] = None
   \<and> getItem ''theme'' [(''theme'', Unparsable)] = getItem ''theme'' demoStorage
   \<and> isAuthenticated (checkAuthState ''t1'' [(''theme'', Unparsable)]) = False"
proof -
  have run: "logout demoStorage [(''otp'', ''123456''), (''otpPhone'', ''+15551234'')]
               = ([(''theme'', Unparsable)], [], signedOut)"
    by (simp add: logout_def demoStorage_def removeItem_def keys_def wipeKey_def startsWith_def)
  show ?thesis
    using logout_wipes_all_user_data [OF run, of "''t1''"] run
    by (simp add: demoStorage_def getItem_def)
qed

text \<open>
  Claim C1 requires that after \<open>logout\<close> the storage holds no session entry and no
  chatroom or message entry of any user, and that the restored session is signed out with
  an empty chatroom list. The \<open>logout\<close> of the shorter revision fails this at the example
  storage: the session entry and the challenge are removed and the restored session is
  signed out, but the entries \<open>chatrooms_user_1\<close> and \<open>messages_room_1\<close> remain, and the
  chatroom list loaded for the former user is not empty. The \<open>logout\<close> of the longer
  revision leaves nothing but the foreign entry at the same storage.
\<close>

theorem short_logout_keeps_user_data:
  "logout_short demoStorage [(''otp'', ''123456''), (''otpPhone'', ''+15551234'')]
     = ([(''theme'', Unparsable), (''chatrooms_user_1'', RoomsText [demoRoom]),
         (''messages_room_1'', MsgsText [])], [], signedOut)
   \<and> getItem ''chatrooms_user_1'' (fst (logout_short demoStorage [])) = Some (RoomsText [demoRoom])
   \<and> getItem ''messages_room_1'' (fst (logout_short demoStorage [])) = Some (MsgsText [])
   \<and> loadChatrooms (Some demoUser) (fst (logout_short demoStorage [])) [] = Some [demoRoom]
   \<and> isAuthenticated (checkAuthState ''t1'' (fst (logout_short demoStorage []))) = False
   \<and> fst (logout demoStorage []) = [(''theme'', Unparsable)]"
  by (simp add: logout_short_def logout_def demoStorage_def removeItem_def getItem_def keys_def
      wipeKey_def startsWith_def loadChatrooms_def chatroomsKey_def demoUser_def
      checkAuthState_def signedOut_def)

text \<open>
  Claim C9. \<open>isAuthenticated = (user \<noteq> null)\<close> holds of the initial state and of the
  state that each operation of the hook sets: \<open>checkAuthState\<close> on any storage (no
  entry, an empty or unparsable entry, any parsable entry), \<open>login\<close> and \<open>logout\<close>.
  Every operation replaces the whole state, so the invariant does not depend on the state
  before.
\<close>

theorem session_invariant_holds:
  "sessionInvariant initialAuthState
   \<and> sessionInvariant (checkAuthState now ls)
   \<and> sessionInvariant (snd (login now u ls))
   \<and> sessionInvariant (snd (snd (logout ls ss)))"
  by (simp add: sessionInvariant_def initialAuthState_def checkAuthState_def signedOut_def
      login_def logout_state split: option.split stored.split)

theorem session_invariant_holds_witness:
  "sessionInvariant (checkAuthState ''t1'' [(''otpUser'', Unparsable)])
   \<and> isAuthenticated (checkAuthState ''t1'' [(''otpUser'', Unparsable)]) = False
   \<and> sessionInvariant (checkAuthState ''t1'' demoStorage)
   \<and> isAuthenticated (checkAuthState ''t1'' demoStorage) = True"
  using session_invariant_holds [of "''t1''" "[(''otpUser'', Unparsable)]"]
    session_invariant_holds [of "''t1''" demoStorage]
  by (simp add: checkAuthState_def getItem_def demoStorage_def signedOut_def)

text \<open>
  Claim C7, as stated, fails: \<open>createdAt\<close> is not part of the persisted record, and
  \<open>checkAuthState\<close> sets it to the time of the restore. A session created at one time and
  restored at another has a different \<open>createdAt\<close>.
\<close>

theorem restore_changes_createdAt:
  "user (checkAuthState ''2024-01-02T00:00:00.000Z''
           (fst (login ''2024-01-01T00:00:00.000Z'' demoCredentials [])))
   \<noteq> user (snd (login ''2024-01-01T00:00:00.000Z'' demoCredentials []))"
  by (simp add: login_def checkAuthState_def getItem_def stringifyUser_def demoCredentials_def)

text \<open>
  Claim C7, amended. The user restored from the record that \<open>login\<close> persisted is the
  user \<open>login\<close> put into the state with \<open>createdAt\<close> replaced by the time of the restore:
  \<open>id\<close>, \<open>phone\<close> and \<open>countryCode\<close> are those given to \<open>login\<close>.
\<close>

theorem restore_keeps_identity_fields:
  "checkAuthState t2 (fst (login t1 u ls)) =
     \<lparr>user = Some \<lparr>u_id = Some (cr_id u), u_phone = Some (cr_phone u),
                    u_countryCode = Some (cr_countryCode u), u_createdAt = t2\<rparr>,
      isLoading = False, isAuthenticated = True\<rparr>
   \<and> user (checkAuthState t2 (fst (login t1 u ls)))
       = map_option (\<lambda>x. x\<lparr>u_createdAt := t2\<rparr>) (user (snd (login t1 u ls)))"
  by (simp add: login_def checkAuthState_def getItem_setItem stringifyUser_def)

theorem restore_keeps_identity_fields_witness:
  "user (checkAuthState ''t2'' (fst (login ''t1'' demoCredentials demoStorage)))
     = Some \<lparr>u_id = Some ''user_1'', u_phone = Some ''5551234'',
             u_countryCode = Some ''+1'', u_createdAt = ''t2''\<rparr>"
  using restore_keeps_identity_fields [of "''t2''" "''t1''" demoCredentials demoStorage]
  by (simp add: demoCredentials_def)

section \<open>The sign-in form: results\<close>

lemma dropWhile_none: "\<forall>c\<in>set s. \<not> P c \<Longrightarrow> dropWhile P s = s"
  by (cases s) auto

lemma isDigit_not_isSpace: "isDigit c \<Longrightarrow> \<not> isSpace c"
  by (auto simp: isDigit_def isSpace_def)

lemma trim_digits: "\<forall>c\<in>set s. isDigit c \<Longrightarrow> trim s = s"
  by (simp add: trim_def dropWhile_none isDigit_not_isSpace)

lemma isDigit_digitChar: "d < 10 \<Longrightarrow> isDigit (digitChar d)"
proof -
  assume "d < 10"
  then have "d \<in> {0, 1, 2, 3, 4, 5, 6, 7, 8, 9}" by auto
  then show ?thesis by (auto simp: isDigit_def digitChar_def)
qed

lemma toString_digits: "\<forall>c\<in>set (toString n). isDigit c"
proof (induction n rule: toString.induct)
  case (1 n)
  have "isDigit (digitChar (n mod 10))" by (simp add: isDigit_digitChar)
  moreover have "n < 10 \<Longrightarrow> isDigit (digitChar n)" by (rule isDigit_digitChar)
  ultimately show ?case
    using 1 by (subst toString.simps) auto
qed

lemma length_toString:
  "10 ^ k \<le> n \<Longrightarrow> n < 10 ^ Suc k \<Longrightarrow> length (toString n) = Suc k"
proof (induction k arbitrary: n)
  case 0
  then show ?case by (subst toString.simps) simp
next
  case (Suc k)
  have "(10::nat) \<le> 10 ^ Suc k" by simp
  then have "\<not> n < 10" using Suc.prems(1) by linarith
  moreover have "10 ^ k \<le> n div 10"
    using Suc.prems(1) by (simp add: less_eq_div_iff_mult_less_eq mult.commute)
  moreover have "n div 10 < 10 ^ Suc k"
    using Suc.prems(2) by (simp add: div_less_iff_less_mult mult.commute)
  ultimately show ?case
    using Suc.IH [of "n div 10"] by (subst toString.simps) simp
qed

subsection \<open>Rounding to doubles\<close>

lemma roundHalfEven_ge: "of_int n \<le> y \<Longrightarrow> n \<le> roundHalfEven y"
proof -
  assume "of_int n \<le> y"
  then have "n \<le> \<lfloor>y\<rfloor>" by (simp add: le_floor_iff)
  then show ?thesis by (simp add: roundHalfEven_def Let_def)
qed

lemma roundHalfEven_le: "y \<le> of_int n \<Longrightarrow> roundHalfEven y \<le> n"
proof -
  assume le: "y \<le> of_int n"
  show ?thesis
  proof (cases "y = of_int n")
    case True
    then show ?thesis by (simp add: roundHalfEven_def Let_def)
  next
    case False
    with le have "y < of_int n" by simp
    then have "\<lfloor>y\<rfloor> < n" by (simp add: floor_less_iff)
    then show ?thesis by (simp add: roundHalfEven_def Let_def)
  qed
qed

lemma roundHalfEven_below_half: "y < of_int n - 1/2 \<Longrightarrow> roundHalfEven y \<le> n - 1"
proof -
  assume lt: "y < of_int n - 1/2"
  then have "y < of_int n" by simp
  then have f: "\<lfloor>y\<rfloor> \<le> n - 1" by (simp add: floor_less_iff)
  show ?thesis
  proof (cases "\<lfloor>y\<rfloor> = n - 1")
    case True
    then have "y - of_int \<lfloor>y\<rfloor> < 1/2" using lt by simp
    then show ?thesis using True by (simp add: roundHalfEven_def Let_def)
  next
    case False
    with f have "\<lfloor>y\<rfloor> + 1 \<le> n - 1" by simp
    then show ?thesis by (simp add: roundHalfEven_def Let_def)
  qed
qed

lemma roundHalfEven_of_int: "roundHalfEven (of_int n) = n"
  by (simp add: roundHalfEven_def)

lemma exponent_eq:
  assumes "2 powr of_int e \<le> \<bar>x\<bar>" and "\<bar>x\<bar> < 2 powr (of_int e + 1)" and "- 1022 \<le> e"
  shows "exponent x = e"
proof -
  have pos: "0 < \<bar>x\<bar>"
    using assms(1) by (smt (verit) powr_gt_zero)
  have "of_int e \<le> log 2 \<bar>x\<bar>"
    using assms(1) pos by (simp add: le_log_iff)
  moreover have "log 2 \<bar>x\<bar> < of_int e + 1"
    using assms(2) pos by (simp add: log_less_iff)
  ultimately have "\<lfloor>log 2 \<bar>x\<bar>\<rfloor> = e"
    by (simp add: floor_eq_iff)
  then show ?thesis using assms(3) by (simp add: exponent_def)
qed

lemma ulp_pos: "0 < ulp x"
  by (simp add: ulp_def)

lemma toDouble_nonneg: "0 \<le> x \<Longrightarrow> 0 \<le> toDouble x"
proof -
  assume "0 \<le> x"
  then have "of_int 0 \<le> x / ulp x" using ulp_pos [of x] by simp
  then have "0 \<le> roundHalfEven (x / ulp x)" by (rule roundHalfEven_ge)
  then show ?thesis using ulp_pos [of x] by (simp add: toDouble_def)
qed

lemma toDouble_zero: "toDouble 0 = 0"
  by (simp add: toDouble_def roundHalfEven_def)

text \<open>Rounding never leaves the binade upwards: below \<open>2 ^ 19\<close> the result is at most \<open>2 ^ 19\<close>.\<close>

lemma below_binade:
  assumes "0 < x" and "x < 524288"
  shows "toDouble x \<le> 524288"
proof -
  define e where "e = exponent x"
  have lg: "log 2 x < 19"
    using assms by (simp add: log_less_iff)
  then have "\<lfloor>log 2 x\<rfloor> \<le> 18"
    by (simp add: floor_less_iff flip: zle_add1_eq_le) 
  then have e18: "e \<le> 18"
    using assms by (simp add: e_def exponent_def)
  have "log 2 x < of_int \<lfloor>log 2 x\<rfloor> + 1" by linarith
  moreover have "\<lfloor>log 2 x\<rfloor> \<le> e" using assms by (simp add: e_def exponent_def)
  ultimately have "log 2 x < of_int e + 1" by linarith
  then have xlt: "x < 2 powr (of_int e + 1)"
    using assms by (simp add: log_less_iff)
  have u: "ulp x = 2 powr (of_int e - 52)" by (simp add: ulp_def e_def)
  have "x / ulp x = x * 2 powr (52 - of_int e)"
    by (simp add: u powr_diff field_simps)
  also have "\<dots> < 2 powr (of_int e + 1) * 2 powr (52 - of_int e)"
    using xlt by simp
  also have "\<dots> = 2 powr 53"
    by (simp flip: powr_add)
  finally have "x / ulp x \<le> of_int (2 ^ 53)" by simp
  then have "roundHalfEven (x / ulp x) \<le> 2 ^ 53" by (rule roundHalfEven_le)
  then have "of_int (roundHalfEven (x / ulp x)) \<le> (2 ^ 53 :: real)"
    by (metis of_int_le_iff of_int_numeral of_int_power)
  then have "of_int (roundHalfEven (x / ulp x)) \<le> (2::real) powr 53" by simp
  then have "toDouble x \<le> 2 powr 53 * 2 powr (of_int e - 52)"
    unfolding toDouble_def u by (rule mult_right_mono) simp
  also have "\<dots> = 2 powr (53 + (of_int e - 52))" by (simp only: powr_add)
  also have "\<dots> = 2 powr (of_int e + 1)" by (simp add: add.commute)
  also have "\<dots> \<le> 2 powr 19" using e18 by (intro powr_mono) simp_all
  finally show ?thesis by simp
qed

lemma ulp_binade:
  assumes "2 ^ n \<le> x" and "x < 2 ^ Suc n" and "n \<le> 52"
  shows "ulp x = 1 / 2 ^ (52 - n)"
proof -
  have "exponent x = int n"
  proof (rule exponent_eq)
    show "2 powr of_int (int n) \<le> \<bar>x\<bar>" using assms(1) by (simp add: powr_realpow)
    have "(2::real) powr (of_int (int n) + 1) = 2 ^ Suc n"
      by (simp add: powr_add powr_realpow)
    moreover have "0 \<le> x" using assms(1) by (smt (verit) zero_le_power)
    ultimately show "\<bar>x\<bar> < 2 powr (of_int (int n) + 1)" using assms(2) by simp
  qed simp
  then have "ulp x = 2 powr (- real (52 - n))"
    using assms(3) by (simp add: ulp_def)
  then show ?thesis by (simp add: powr_minus_divide powr_realpow)
qed

lemma product_bound:
  assumes "0 \<le> p" and "p \<le> 900000 - 900000 / 2 ^ 53"
  shows "0 \<le> toDouble p" and "toDouble p \<le> 900000 - 1 / 2 ^ 33"
proof -
  show "0 \<le> toDouble p" using assms(1) by (rule toDouble_nonneg)
  show "toDouble p \<le> 900000 - 1 / 2 ^ 33"
  proof (cases "p < 524288")
    case True
    show ?thesis
    proof (cases "p = 0")
      case True
      then show ?thesis by (simp add: toDouble_zero)
    next
      case False
      with assms(1) have "0 < p" by simp
      then have "toDouble p \<le> 524288" using True by (rule below_binade)
      then show ?thesis by simp
    qed
  next
    case False
    then have lo: "2 ^ 19 \<le> p" by simp
    have hi: "p < 2 ^ Suc 19" using assms(2) by simp
    have u: "ulp p = 1 / 2 ^ 33"
      using ulp_binade [OF lo hi] by simp
    have "p / ulp p = p * 2 ^ 33" by (simp add: u)
    also have "\<dots> \<le> (900000 - 900000 / 2 ^ 53) * 2 ^ 33"
      using assms(2) by simp
    also have "\<dots> < of_int (900000 * 2 ^ 33) - 1 / 2" by simp
    finally have "roundHalfEven (p / ulp p) \<le> 900000 * 2 ^ 33 - 1"
      by (rule roundHalfEven_below_half)
    then have "of_int (roundHalfEven (p / ulp p)) \<le> (900000 * 2 ^ 33 - 1 :: real)"
      by (metis (mono_tags) of_int_le_iff of_int_diff of_int_mult of_int_numeral of_int_power of_int_1)
    then have "toDouble p \<le> (900000 * 2 ^ 33 - 1) * (1 / 2 ^ 33)"
      unfolding toDouble_def u by (rule mult_right_mono) simp
    then show ?thesis by simp
  qed
qed

lemma sum_bound:
  assumes "100000 \<le> s" and "s \<le> 1000000 - 1 / 2 ^ 33"
  shows "100000 \<le> toDouble s" and "toDouble s \<le> 1000000 - 1 / 2 ^ 33"
proof -
  have "2 ^ 16 \<le> s" "s < 2 ^ 20" using assms by simp_all
  then consider "2 ^ 16 \<le> s \<and> s < 2 ^ Suc 16" | "2 ^ 17 \<le> s \<and> s < 2 ^ Suc 17"
    | "2 ^ 18 \<le> s \<and> s < 2 ^ Suc 18" | "2 ^ 19 \<le> s \<and> s < 2 ^ Suc 19"
    by (simp add: not_less [symmetric]) linarith
  then obtain k where k: "33 \<le> k" "k \<le> 36" and u: "ulp s = 1 / 2 ^ k"
  proof cases
    case 1 then show ?thesis using ulp_binade [of 16 s] that [of 36] by simp
  next
    case 2 then show ?thesis using ulp_binade [of 17 s] that [of 35] by simp
  next
    case 3 then show ?thesis using ulp_binade [of 18 s] that [of 34] by simp
  next
    case 4 then show ?thesis using ulp_binade [of 19 s] that [of 33] by simp
  qed
  have q: "s / ulp s = s * 2 ^ k" by (simp add: u)
  have "of_int (100000 * 2 ^ k) \<le> s / ulp s"
    using assms(1) by (simp add: q)
  then have "100000 * 2 ^ k \<le> roundHalfEven (s / ulp s)" by (rule roundHalfEven_ge)
  then have "(100000 * 2 ^ k :: real) \<le> of_int (roundHalfEven (s / ulp s))"
    by (metis (mono_tags) of_int_le_iff of_int_mult of_int_numeral of_int_power)
  then have "100000 * 2 ^ k * (1 / 2 ^ k) \<le> toDouble s"
    unfolding toDouble_def u by (rule mult_right_mono) simp
  then show "100000 \<le> toDouble s" by simp
  have "k = 33 + (k - 33)" using k by simp
  then have split: "(2::real) ^ k = 2 ^ 33 * 2 ^ (k - 33)"
    by (metis power_add)
  have "s / ulp s \<le> (1000000 - 1 / 2 ^ 33) * 2 ^ k"
    using assms(2) by (simp add: q)
  also have "\<dots> = of_int ((1000000 * 2 ^ 33 - 1) * 2 ^ (k - 33))"
    by (simp add: split algebra_simps)
  finally have "roundHalfEven (s / ulp s) \<le> (1000000 * 2 ^ 33 - 1) * 2 ^ (k - 33)"
    by (rule roundHalfEven_le)
  then have "of_int (roundHalfEven (s / ulp s)) \<le> ((1000000 * 2 ^ 33 - 1) * 2 ^ (k - 33) :: real)"
    by (metis (mono_tags) of_int_le_iff of_int_diff of_int_mult of_int_numeral of_int_power of_int_1)
  then have "toDouble s \<le> (1000000 * 2 ^ 33 - 1) * 2 ^ (k - 33) * (1 / 2 ^ k)"
    unfolding toDouble_def u by (rule mult_right_mono) simp
  also have "\<dots> = 1000000 - 1 / 2 ^ 33"
    by (simp add: split field_simps)
  finally show "toDouble s \<le> 1000000 - 1 / 2 ^ 33" .
qed

lemma double_below_one:
  assumes "isDouble r" and "r < 1"
  shows "r \<le> 1 - 1 / 2 ^ 53"
proof (cases "r < 1 / 2")
  case True
  then show ?thesis by simp
next
  case False
  have e: "exponent r = - 1"
  proof (rule exponent_eq)
    show "2 powr of_int (- 1) \<le> \<bar>r\<bar>" using False by (simp add: powr_minus_divide)
    show "\<bar>r\<bar> < 2 powr (of_int (- 1) + 1)" using False assms(2) by simp
  qed simp
  have u: "ulp r = 1 / 2 ^ 53"
    using powr_int [of "2::real" "-53"] by (simp add: ulp_def e)
  define n where "n = roundHalfEven (r / ulp r)"
  have r: "r = of_int n / 2 ^ 53"
    using assms(1) by (simp add: isDouble_def toDouble_def n_def u)
  with assms(2) have "of_int n < (2 ^ 53 :: real)" by simp
  then have "n < 2 ^ 53"
    by (metis of_int_less_iff of_int_numeral of_int_power)
  then have "n \<le> 2 ^ 53 - 1" by simp
  then have "of_int n \<le> (2 ^ 53 - 1 :: real)"
    by (metis (mono_tags) of_int_le_iff of_int_diff of_int_numeral of_int_power of_int_1)
  then show ?thesis by (simp add: r field_simps)
qed

lemma otp_double_range:
  assumes "isDouble r" and "0 \<le> r" and "r < 1"
  shows "100000 \<le> toDouble (100000 + toDouble (r * 900000))"
    and "toDouble (100000 + toDouble (r * 900000)) < 1000000"
proof -
  have "r \<le> 1 - 1 / 2 ^ 53" using assms(1,3) by (rule double_below_one)
  then have "r * 900000 \<le> 900000 - 900000 / 2 ^ 53" by simp
  moreover have "0 \<le> r * 900000" using assms(2) by simp
  ultimately have q: "0 \<le> toDouble (r * 900000)" "toDouble (r * 900000) \<le> 900000 - 1 / 2 ^ 33"
    using product_bound [of "r * 900000"] by simp_all
  then have "100000 \<le> 100000 + toDouble (r * 900000)"
    "100000 + toDouble (r * 900000) \<le> 1000000 - 1 / 2 ^ 33" by simp_all
  then have "100000 \<le> toDouble (100000 + toDouble (r * 900000))"
    "toDouble (100000 + toDouble (r * 900000)) \<le> 1000000 - 1 / 2 ^ 33"
    using sum_bound [of "100000 + toDouble (r * 900000)"] by simp_all
  then show "100000 \<le> toDouble (100000 + toDouble (r * 900000))"
    and "toDouble (100000 + toDouble (r * 900000)) < 1000000" by simp_all
qed


lemma toDouble_at: "ulp x = 1 / 2 ^ k \<Longrightarrow> toDouble x = of_int (roundHalfEven (x * 2 ^ k)) / 2 ^ k"
  by (simp add: toDouble_def)

lemma toDouble_exact:
  assumes "ulp x = 1 / 2 ^ k" and "x * 2 ^ k = of_int n"
  shows "toDouble x = x"
proof -
  have "toDouble x = of_int n / 2 ^ k"
    using assms by (simp add: toDouble_at roundHalfEven_of_int)
  also have "\<dots> = x" using assms(2) [symmetric] by simp
  finally show ?thesis .
qed

lemma toDouble_int_19: "524288 \<le> n \<Longrightarrow> n < 1048576 \<Longrightarrow> toDouble (of_int n) = of_int n"
proof -
  assume "524288 \<le> n" "n < 1048576"
  then have "ulp (of_int n) = 1 / 2 ^ 33"
    using ulp_binade [of 19 "of_int n"] by simp
  moreover have "of_int n * 2 ^ 33 = (of_int (n * 2 ^ 33) :: real)" by simp
  ultimately show ?thesis by (rule toDouble_exact)
qed

lemma product_half: "toDouble (1 / 2 * 900000) = 450000"
proof -
  have "ulp 450000 = 1 / 2 ^ 34" using ulp_binade [of 18 450000] by simp
  moreover have "(450000::real) * 2 ^ 34 = of_int (450000 * 2 ^ 34)" by simp
  ultimately have "toDouble 450000 = 450000" by (rule toDouble_exact)
  then show ?thesis by simp
qed

lemma product_near_half: "toDouble (4503709715361387 / 2 ^ 53 * 900000) = 450011"
proof -
  have "ulp (4503709715361387 / 2 ^ 53 * 900000) = 1 / 2 ^ 34"
    using ulp_binade [of 18 "4503709715361387 / 2 ^ 53 * 900000"] by simp
  then have "toDouble (4503709715361387 / 2 ^ 53 * 900000)
      = of_int (roundHalfEven (4503709715361387 / 2 ^ 53 * 900000 * 2 ^ 34)) / 2 ^ 34"
    by (rule toDouble_at)
  moreover have "roundHalfEven (4503709715361387 / 2 ^ 53 * 900000 * 2 ^ 34) = 7731130111361024"
    by (simp add: roundHalfEven_def Let_def)
  ultimately show ?thesis by simp
qed

lemma real_floor_near_half: "\<lfloor>100000 + 4503709715361387 / 2 ^ 53 * 900000 :: real\<rfloor> = 550010"
  by (simp add: floor_eq_iff)

lemma product_last: "toDouble ((1 - 1 / 2 ^ 53) * 900000) = 900000 - 1 / 2 ^ 33"
proof -
  have "ulp ((1 - 1 / 2 ^ 53) * 900000) = 1 / 2 ^ 33"
    using ulp_binade [of 19 "(1 - 1 / 2 ^ 53) * 900000"] by simp
  then have "toDouble ((1 - 1 / 2 ^ 53) * 900000)
      = of_int (roundHalfEven ((1 - 1 / 2 ^ 53) * 900000 * 2 ^ 33)) / 2 ^ 33"
    by (rule toDouble_at)
  moreover have "roundHalfEven ((1 - 1 / 2 ^ 53) * 900000 * 2 ^ 33) = 7730941132799999"
    by (simp add: roundHalfEven_def Let_def)
  ultimately show ?thesis by simp
qed

lemma sum_last: "toDouble (100000 + (900000 - 1 / 2 ^ 33)) = 1000000 - 1 / 2 ^ 33"
proof -
  have "ulp (100000 + (900000 - 1 / 2 ^ 33)) = 1 / 2 ^ 33"
    using ulp_binade [of 19 "100000 + (900000 - 1 / 2 ^ 33)"] by simp
  moreover have "(100000 + (900000 - 1 / 2 ^ 33)) * 2 ^ 33 = (of_int (1000000 * 2 ^ 33 - 1) :: real)"
    by simp
  ultimately have "toDouble (100000 + (900000 - 1 / 2 ^ 33)) = 100000 + (900000 - 1 / 2 ^ 33)"
    by (rule toDouble_exact)
  then show ?thesis by simp
qed

lemma isDouble_half: "isDouble (1 / 2)"
proof -
  have "exponent (1 / 2) = - 1"
    by (rule exponent_eq) (simp_all add: powr_minus_divide)
  then have "ulp (1 / 2) = 1 / 2 ^ 53"
    using powr_int [of "2::real" "-53"] by (simp add: ulp_def)
  moreover have "(1 / 2 :: real) * 2 ^ 53 = of_int (2 ^ 52)" by simp
  ultimately show ?thesis unfolding isDouble_def by (rule toDouble_exact)
qed

lemma isDouble_53: "2 ^ 52 \<le> n \<Longrightarrow> n < 2 ^ 53 \<Longrightarrow> isDouble (of_int n / 2 ^ 53)"
proof -
  assume n: "2 ^ 52 \<le> n" "n < 2 ^ 53"
  then have r: "(2 ^ 52 :: real) \<le> of_int n" "of_int n < (2 ^ 53 :: real)"
    by (metis of_int_le_iff of_int_numeral of_int_power, metis of_int_less_iff of_int_numeral of_int_power)
  have "exponent (of_int n / 2 ^ 53) = - 1"
    using r by (intro exponent_eq) (simp_all add: powr_minus_divide field_simps)
  then have "ulp (of_int n / 2 ^ 53) = 1 / 2 ^ 53"
    using powr_int [of "2::real" "-53"] by (simp add: ulp_def)
  moreover have "(of_int n / 2 ^ 53 :: real) * 2 ^ 53 = of_int n" by simp
  ultimately show ?thesis unfolding isDouble_def by (rule toDouble_exact)
qed

lemma toDouble_100000: "toDouble 100000 = 100000"
proof -
  have "ulp 100000 = 1 / 2 ^ 36" using ulp_binade [of 16 100000] by simp
  moreover have "(100000::real) * 2 ^ 36 = of_int (100000 * 2 ^ 36)" by simp
  ultimately show ?thesis by (rule toDouble_exact)
qed

lemma isDouble_zero: "isDouble 0"
  by (simp add: isDouble_def toDouble_zero)

subsection \<open>The generated code\<close>

lemma otp_floor_range:
  assumes "isDouble r" and "0 \<le> r" and "r < 1"
  shows "100000 \<le> nat \<lfloor>toDouble (100000 + toDouble (r * 900000))\<rfloor>"
    and "nat \<lfloor>toDouble (100000 + toDouble (r * 900000))\<rfloor> \<le> 999999"
proof -
  note range = otp_double_range [OF assms]
  have "(100000::int) \<le> \<lfloor>toDouble (100000 + toDouble (r * 900000))\<rfloor>"
    using range(1) by (simp add: le_floor_iff)
  then show "100000 \<le> nat \<lfloor>toDouble (100000 + toDouble (r * 900000))\<rfloor>" by linarith
  have "\<lfloor>toDouble (100000 + toDouble (r * 900000))\<rfloor> < (1000000::int)"
    using range(2) by (simp add: floor_less_iff)
  then show "nat \<lfloor>toDouble (100000 + toDouble (r * 900000))\<rfloor> \<le> 999999" by linarith
qed

lemma generateOTP_length:
  "isDouble r \<Longrightarrow> 0 \<le> r \<Longrightarrow> r < 1 \<Longrightarrow> length (generateOTP r) = 6"
  unfolding generateOTP_def
  using otp_floor_range [of r]
    length_toString [of 5 "nat \<lfloor>toDouble (100000 + toDouble (r * 900000))\<rfloor>"]
  by simp

lemma generateOTP_digits: "\<forall>c\<in>set (generateOTP r). isDigit c"
  by (simp add: generateOTP_def toString_digits)

lemma filter_digits: "\<forall>c\<in>set s. isDigit c \<Longrightarrow> stripNonDigits s = s"
  by (simp add: stripNonDigits_def)

lemma generateOTP_half: "generateOTP (1 / 2) = ''550000''"
proof -
  have "toDouble (100000 + toDouble (1 / 2 * 900000)) = toDouble 550000"
    by (simp only: product_half) simp
  also have "\<dots> = 550000"
    using toDouble_int_19 [of 550000] by simp
  finally have "toDouble (100000 + toDouble (1 / 2 * 900000)) = 550000" .
  then have "generateOTP (1 / 2) = toString 550000"
    by (simp only: generateOTP_def) simp
  then show ?thesis by (simp add: toString.simps digitChar_def)
qed

lemma generateOTP_zero: "generateOTP 0 = ''100000''"
proof -
  have "toDouble (100000 + toDouble (0 * 900000)) = 100000"
    by (simp add: toDouble_zero toDouble_100000)
  then have "generateOTP 0 = toString 100000"
    by (simp only: generateOTP_def) simp
  then show ?thesis by (simp add: toString.simps digitChar_def)
qed

lemma generateOTP_last: "generateOTP (1 - 1 / 2 ^ 53) = ''999999''"
proof -
  have "toDouble (100000 + toDouble ((1 - 1 / 2 ^ 53) * 900000)) = 1000000 - 1 / 2 ^ 33"
    by (simp only: product_last sum_last)
  moreover have "\<lfloor>1000000 - 1 / 2 ^ 33 :: real\<rfloor> = 999999"
    by (simp add: floor_eq_iff)
  ultimately have "generateOTP (1 - 1 / 2 ^ 53) = toString 999999"
    by (simp only: generateOTP_def) simp
  then show ?thesis by (simp add: toString.simps digitChar_def)
qed

lemma generateOTP_near_half: "generateOTP (4503709715361387 / 2 ^ 53) = ''550011''"
proof -
  have "toDouble (100000 + toDouble (4503709715361387 / 2 ^ 53 * 900000)) = toDouble 550011"
    by (simp only: product_near_half) simp
  also have "\<dots> = 550011"
    using toDouble_int_19 [of 550011] by simp
  finally have "toDouble (100000 + toDouble (4503709715361387 / 2 ^ 53 * 900000)) = 550011" .
  then have "generateOTP (4503709715361387 / 2 ^ 53) = toString 550011"
    by (simp only: generateOTP_def) simp
  then show ?thesis by (simp add: toString.simps digitChar_def)
qed

text \<open>
  Claim C10. For every double \<open>r\<close> with \<open>0 \<le> r < 1\<close> that the random source can return,
  the number \<open>Math.floor(100000 + r * 900000)\<close>, computed in double arithmetic, lies
  between 100000 and 999999, and the generated code, its decimal form, is a string of
  exactly six digits. Typed into the code field it is kept as it is, and \<open>verifyOTP\<close> on
  it goes past the length guard and schedules the comparison.
\<close>

theorem otp_code_has_six_digits:
  assumes "isDouble r" and "0 \<le> r" and "r < 1"
  shows "100000 \<le> nat \<lfloor>toDouble (100000 + toDouble (r * 900000))\<rfloor>
       \<and> nat \<lfloor>toDouble (100000 + toDouble (r * 900000))\<rfloor> \<le> 999999
       \<and> generateOTP r = toString (nat \<lfloor>toDouble (100000 + toDouble (r * 900000))\<rfloor>)
       \<and> length (generateOTP r) = 6
       \<and> (\<forall>c\<in>set (generateOTP r). isDigit c)
       \<and> o_otp (onOtpChange (generateOTP r) prev) = generateOTP r
       \<and> verifyOTP (prev\<lparr>o_otp := generateOTP r\<rparr>) cur
           = (cur\<lparr>o_isLoading := True, o_error := None\<rparr>, Some (prev\<lparr>o_otp := generateOTP r\<rparr>))"
proof -
  have len: "length (generateOTP r) = 6"
    using assms by (rule generateOTP_length)
  have dig: "\<forall>c\<in>set (generateOTP r). isDigit c"
    by (rule generateOTP_digits)
  have "trim (generateOTP r) = generateOTP r"
    using dig by (rule trim_digits)
  moreover have "generateOTP r \<noteq> []"
    using len by auto
  ultimately have "verifyOTP (prev\<lparr>o_otp := generateOTP r\<rparr>) cur
      = (cur\<lparr>o_isLoading := True, o_error := None\<rparr>, Some (prev\<lparr>o_otp := generateOTP r\<rparr>))"
    using len by (simp add: verifyOTP_def)
  moreover have "o_otp (onOtpChange (generateOTP r) prev) = generateOTP r"
    using dig len by (simp add: onOtpChange_def filter_digits)
  ultimately show ?thesis
    using otp_floor_range [OF assms] len dig by (simp add: generateOTP_def)
qed

theorem otp_code_has_six_digits_witness:
  "isDouble (4503709715361387 / 2 ^ 53)
   \<and> generateOTP (4503709715361387 / 2 ^ 53) = ''550011''
   \<and> length (generateOTP (4503709715361387 / 2 ^ 53)) = 6
   \<and> isDouble (1 - 1 / 2 ^ 53)
   \<and> generateOTP (1 - 1 / 2 ^ 53) = ''999999''
   \<and> generateOTP 0 = ''100000''
   \<and> generateOTP (1 / 2) = ''550000''"
proof -
  have a: "isDouble (4503709715361387 / 2 ^ 53)"
    using isDouble_53 [of 4503709715361387] by simp
  have "(1 - 1 / 2 ^ 53 :: real) = of_int (2 ^ 53 - 1) / 2 ^ 53"
    by (simp add: field_simps)
  moreover have "isDouble (of_int (2 ^ 53 - 1) / 2 ^ 53)"
    by (rule isDouble_53) simp_all
  ultimately have b: "isDouble (1 - 1 / 2 ^ 53)"
    by (simp only:)
  have c: "(0::real) \<le> 4503709715361387 / 2 ^ 53" "(4503709715361387 / 2 ^ 53 :: real) < 1"
    by simp_all
  have len: "length (generateOTP (4503709715361387 / 2 ^ 53)) = 6"
    using otp_code_has_six_digits [OF a c, of initialOTPState initialOTPState] by (elim conjE)
  show ?thesis
    using a b len generateOTP_near_half generateOTP_last generateOTP_zero generateOTP_half
    by (intro conjI)
qed

lemma stripNonDigits_digits: "\<forall>c\<in>set (stripNonDigits v). isDigit c"
  by (simp add: stripNonDigits_def)

text \<open>
  Claim C8. The phone field keeps the input with every non-digit character deleted, so
  \<open>sendOTP\<close> works on the digits-only form: if that form is empty, \<open>sendOTP\<close> only sets the
  error message (the step is unchanged, no timeout is scheduled, and so nothing is written
  to \<open>sessionStorage\<close>); otherwise its timeout stores the challenge with the country code
  followed by the digits as \<open>otpPhone\<close>, and moves to the code step.
\<close>

theorem phone_input_is_stripped:
  fixes v :: string and prev cur :: OTPState
  defines "st \<equiv> onPhoneChange v prev"
  shows "o_phone st = stripNonDigits v
       \<and> (\<forall>c\<in>set (o_phone st). isDigit c)
       \<and> (stripNonDigits v = [] \<longrightarrow>
            sendOTP st st = (st\<lparr>o_error := Some ''Please enter a valid phone number''\<rparr>, None)
            \<and> o_step (fst (sendOTP st st)) = o_step prev)
       \<and> (stripNonDigits v \<noteq> [] \<longrightarrow>
            sendOTP st st = (st\<lparr>o_isLoading := True, o_error := None\<rparr>, Some st)
            \<and> getItem ''otpPhone'' (fst (sendOTP_timeout st r ss cur))
                = Some (o_countryCode prev @ stripNonDigits v)
            \<and> getItem ''otp'' (fst (sendOTP_timeout st r ss cur)) = Some (generateOTP r)
            \<and> o_step (snd (sendOTP_timeout st r ss cur)) = StepOtp
            \<and> o_phone (snd (sendOTP_timeout st r ss st)) = stripNonDigits v)"
proof -
  have phone: "o_phone st = stripNonDigits v" and cc: "o_countryCode st = o_countryCode prev"
    and stp: "o_step st = o_step prev"
    by (simp_all add: st_def onPhoneChange_def)
  have trimmed: "trim (stripNonDigits v) = stripNonDigits v"
    using stripNonDigits_digits by (rule trim_digits)
  have empty: "trim [] = []"
    by (simp add: trim_def)
  show ?thesis
    by (simp add: sendOTP_def trimmed empty phone cc stp stripNonDigits_digits
        sendOTP_timeout_def Let_def getItem_setItem)
qed

theorem phone_input_is_stripped_witness:
  "o_phone (onPhoneChange ''(555) 123-4x'' initialOTPState) = ''5551234''
   \<and> snd (sendOTP (onPhoneChange ''(555) 123-4x'' initialOTPState)
             (onPhoneChange ''(555) 123-4x'' initialOTPState))
       = Some (onPhoneChange ''(555) 123-4x'' initialOTPState)
   \<and> getItem ''otpPhone''
        (fst (sendOTP_timeout (onPhoneChange ''(555) 123-4x'' initialOTPState) (1/2) []
                initialOTPState)) = Some ''+15551234''
   \<and> stripNonDigits ''+ () -'' = []
   \<and> sendOTP (onPhoneChange ''+ () -'' initialOTPState) (onPhoneChange ''+ () -'' initialOTPState)
       = (initialOTPState\<lparr>o_error := Some ''Please enter a valid phone number''\<rparr>, None)"
proof -
  have a: "stripNonDigits ''(555) 123-4x'' = ''5551234''" and b: "stripNonDigits ''+ () -'' = []"
    by (simp_all add: stripNonDigits_def isDigit_def)
  show ?thesis
    using phone_input_is_stripped [of "''(555) 123-4x''" initialOTPState "1/2" "[]" initialOTPState]
      phone_input_is_stripped [of "''+ () -''" initialOTPState "1/2" "[]" initialOTPState]
    by (simp add: a b onPhoneChange_def initialOTPState_def)
qed

text \<open>
  Claim C2. Let the challenge be live: \<open>sessionStorage\<close> is what the timeout of
  \<open>sendOTP\<close> left, with the code \<open>generateOTP r\<close> written over any earlier one. For a
  string \<open>x\<close> of six digits in the code field, \<open>verifyOTP\<close> goes past its guard, and its
  timeout creates the user (\<open>id\<close> from the clock, phone and country code of the form),
  stores it, deletes the challenge and moves to the verified step if \<open>x\<close> is the stored
  code; for any other \<open>x\<close> it sets the error message, creates nothing and leaves the
  step and both storages as they are. A user is created if and only if \<open>x\<close> equals the
  stored code.
\<close>

theorem verify_succeeds_iff_code_matches:
  assumes six: "length x = 6" and digits: "\<forall>c\<in>set x. isDigit c"
    and live: "ss = fst (sendOTP_timeout cap0 r ss0 st0)"
    and typed: "o_otp cap = x"
  shows "verifyOTP cap cur = (cur\<lparr>o_isLoading := True, o_error := None\<rparr>, Some cap)
       \<and> getItem ''otp'' ss = Some (generateOTP r)
       \<and> (x = generateOTP r \<longrightarrow>
            verifyOTP_timeout cap ms ss ls cur =
              (removeItem ''otpPhone'' (removeItem ''otp'' ss),
               setItem ''otpUser''
                 (stringifyUser \<lparr>cr_id = ''user_'' @ toString ms, cr_phone = o_phone cap,
                                  cr_countryCode = o_countryCode cap\<rparr>) ls,
               cur\<lparr>o_step := StepVerified, o_isLoading := False\<rparr>,
               Some \<lparr>cr_id = ''user_'' @ toString ms, cr_phone = o_phone cap,
                      cr_countryCode = o_countryCode cap\<rparr>))
       \<and> (x \<noteq> generateOTP r \<longrightarrow>
            verifyOTP_timeout cap ms ss ls cur =
              (ss, ls, cur\<lparr>o_isLoading := False, o_error := Some ''Invalid OTP. Please try again.''\<rparr>,
               None)
            \<and> o_step (fst (snd (snd (verifyOTP_timeout cap ms ss ls cur)))) = o_step cur)
       \<and> ((snd (snd (snd (verifyOTP_timeout cap ms ss ls cur))) \<noteq> None) = (x = generateOTP r))"
proof -
  have stored: "getItem ''otp'' ss = Some (generateOTP r)"
    by (simp add: live sendOTP_timeout_def Let_def getItem_setItem)
  have "trim x = x"
    using digits by (rule trim_digits)
  moreover have "x \<noteq> []"
    using six by auto
  ultimately have guard: "verifyOTP cap cur = (cur\<lparr>o_isLoading := True, o_error := None\<rparr>, Some cap)"
    using six by (simp add: verifyOTP_def typed)
  show ?thesis
    using guard stored by (auto simp: verifyOTP_timeout_def Let_def typed)
qed

theorem verify_succeeds_iff_code_matches_witness:
  "getItem ''otp'' challenged = Some ''550000''
   \<and> o_step (fst (snd (snd (verifyOTP_timeout (initialOTPState\<lparr>o_otp := ''550000''\<rparr>) 7
                               challenged [] (initialOTPState\<lparr>o_step := StepOtp\<rparr>)))))
       = StepVerified
   \<and> o_step (fst (snd (snd (verifyOTP_timeout (initialOTPState\<lparr>o_otp := ''000000''\<rparr>) 7
                               challenged [] (initialOTPState\<lparr>o_step := StepOtp\<rparr>)))))
       = StepOtp
   \<and> o_step (fst (snd (snd (verifyOTP_timeout (initialOTPState\<lparr>o_otp := ''123456''\<rparr>) 7
                               challenged [] (initialOTPState\<lparr>o_step := StepOtp\<rparr>)))))
       = StepOtp"
proof -
  have code: "generateOTP (1/2) = ''550000''"
    by (rule generateOTP_half)
  have d: "\<forall>c\<in>set ''550000''. isDigit c" "\<forall>c\<in>set ''000000''. isDigit c"
    "\<forall>c\<in>set ''123456''. isDigit c"
    by (simp_all add: isDigit_def)
  note inst = verify_succeeds_iff_code_matches [where ss = challenged and r = "1/2" and ms = 7
      and ls = "[]" and cur = "initialOTPState\<lparr>o_step := StepOtp\<rparr>", OF _ _ challenged_def]
  show ?thesis
    using inst [of "''550000''" "initialOTPState\<lparr>o_otp := ''550000''\<rparr>"]
      inst [of "''000000''" "initialOTPState\<lparr>o_otp := ''000000''\<rparr>"]
      inst [of "''123456''" "initialOTPState\<lparr>o_otp := ''123456''\<rparr>"] d
    by (simp add: code)
qed

section \<open>Dashboard and chat view: results\<close>

lemma messagesKey_neq_chatroomsKey: "messagesKey a \<noteq> chatroomsKey u"
  by (simp add: messagesKey_def chatroomsKey_def)

lemma updateView_frame:
  "w_localStorage (updateView i f w) = w_localStorage w"
  "w_chatrooms (updateView i f w) = w_chatrooms w"
  "w_selectedChatroom (updateView i f w) = w_selectedChatroom w"
  by (simp_all add: updateView_def split: option.split)

lemma updateView_unmounted: "w_view w = None \<Longrightarrow> updateView i f w = w"
  by (simp add: updateView_def)

lemma saveChatrooms_Some:
  "saveChatrooms (Some u) rooms w =
     w\<lparr>w_localStorage := setItem (chatroomsKey u) (RoomsText rooms) (w_localStorage w),
       w_chatrooms := rooms\<rparr>"
  by (simp add: saveChatrooms_def)

lemma saveMessages_snoc:
  "saveMessages env (old @ [m]) w =
     onUpdateChatroom (e_dashUser env) (e_dashRooms env)
       ((e_chatroom env)\<lparr>c_lastMessage := Some (take 100 (m_content m)),
                          c_lastMessageTime := Some (m_timestamp m)\<rparr>)
       (setMessages (e_instance env) (\<lambda>_. old @ [m])
          (w\<lparr>w_localStorage := setItem (messagesKey (c_id (e_chatroom env)))
                                   (MsgsText (old @ [m])) (w_localStorage w)\<rparr>))"
  by (simp add: saveMessages_def Let_def substring0_def)

lemma saveMessages_writes_log:
  "getItem (messagesKey (c_id (e_chatroom env))) (w_localStorage (saveMessages env (old @ [m]) w))
     = Some (MsgsText (old @ [m]))"
  by (cases "e_dashUser env")
     (simp_all add: saveMessages_snoc onUpdateChatroom_def saveChatrooms_def setMessages_def
       updateView_frame getItem_setItem messagesKey_neq_chatroomsKey)

lemma render_captures_current_state:
  assumes "render dashUser chatUser w = Some env"
  shows "e_dashRooms env = w_chatrooms w" and "e_dashUser env = dashUser"
    and "w_selectedChatroom w = Some (e_chatroom env)"
    and "map_option v_messages (w_view w) = Some (e_messages env)"
  using assms by (auto simp: render_def split: option.splits)

lemma render_demoWorld: "render (Some demoUser) (Some demoUser) demoWorld = Some demoEnv"
  by (simp add: render_def demoWorld_def demoEnv_def)

lemma saveMessages_nonempty:
  assumes "msgs \<noteq> []"
  shows "saveMessages env msgs w =
     onUpdateChatroom (e_dashUser env) (e_dashRooms env)
       ((e_chatroom env)\<lparr>c_lastMessage := Some (take 100 (m_content (last msgs))),
                          c_lastMessageTime := Some (m_timestamp (last msgs))\<rparr>)
       (setMessages (e_instance env) (\<lambda>_. msgs)
          (w\<lparr>w_localStorage := setItem (messagesKey (c_id (e_chatroom env)))
                                   (MsgsText msgs) (w_localStorage w)\<rparr>))"
proof -
  have "msgs = butlast msgs @ [last msgs]" using assms by simp
  then show ?thesis using saveMessages_snoc [of env "butlast msgs" "last msgs" w] by simp
qed

lemma staleSent_eq:
  "staleSent =
     \<lparr>w_localStorage =
        [(''otpUser'', UserText (Some ''user_1'') (Some ''5551234'') (Some ''+1'')),
         (''theme'', Unparsable),
         (''chatrooms_user_1'',
          RoomsText [otherRoom, demoRoom\<lparr>c_lastMessage := Some ''Shared an image: cat.png'',
                                           c_lastMessageTime := Some ''t2''\<rparr>]),
         (''messages_room_1'', MsgsText [catMessage])],
      w_chatrooms = [otherRoom, demoRoom\<lparr>c_lastMessage := Some ''Shared an image: cat.png'',
                                         c_lastMessageTime := Some ''t2''\<rparr>],
      w_selectedChatroom = Some demoRoom, w_isCreating = False, w_newChatroomName = [],
      w_view = Some \<lparr>v_instance = 0, v_messages = [catMessage], v_inputValue = ''Hello'',
                      v_isTyping = True\<rparr>,
      w_mounts = 1\<rparr>"
  unfolding staleSent_def
  by (simp add: demoWorld_def demoEnv_def demoStorage_def demoRoom_def otherRoom_def
      demoUser_def catMessage_def handleImageUpload_onload_def saveMessages_def
      onUpdateChatroom_def saveChatrooms_def setIsTyping_def setMessages_def updateView_def
      chatroomsKey_def messagesKey_def substring0_def toString.simps digitChar_def Let_def)

lemma staleChatted_eq:
  "staleChatted =
     \<lparr>w_localStorage =
        [(''otpUser'', UserText (Some ''user_1'') (Some ''5551234'') (Some ''+1'')),
         (''theme'', Unparsable),
         (''chatrooms_user_1'',
          RoomsText [otherRoom\<lparr>c_lastMessage := Some ''Hi B'', c_lastMessageTime := Some ''t25''\<rparr>,
                     demoRoom\<lparr>c_lastMessage := Some ''Shared an image: cat.png'',
                                c_lastMessageTime := Some ''t2''\<rparr>]),
         (''messages_room_1'', MsgsText [catMessage]),
         (''messages_room_2'', MsgsText [hiMessage])],
      w_chatrooms = [otherRoom\<lparr>c_lastMessage := Some ''Hi B'', c_lastMessageTime := Some ''t25''\<rparr>,
                     demoRoom\<lparr>c_lastMessage := Some ''Shared an image: cat.png'',
                                c_lastMessageTime := Some ''t2''\<rparr>],
      w_selectedChatroom = Some otherRoom, w_isCreating = False, w_newChatroomName = [],
      w_view = Some \<lparr>v_instance = 1, v_messages = [hiMessage], v_inputValue = [],
                      v_isTyping = True\<rparr>,
      w_mounts = 2\<rparr>"
  unfolding staleChatted_def staleOpened_def staleSent_eq
  by (simp add: otherEnv_def otherRoom_def demoRoom_def demoUser_def hiMessage_def
      newView_def selectChatroom_def onBack_def setInputValue_def
      sendMessage_def saveMessages_def onUpdateChatroom_def saveChatrooms_def
      setIsTyping_def setMessages_def updateView_def
      chatroomsKey_def messagesKey_def substring0_def trim_def isSpace_def
      toString.simps digitChar_def Let_def)

text \<open>
  Claim C5, as stated, fails for a reply that fires late. The reply to the image shared in
  \<open>room_1\<close> saves the chatroom list it captured when the image was chosen: the preview of
  \<open>room_2\<close>, which the message "Hi B" had set in the meantime, goes back to its earlier
  value, although the append was to \<open>room_1\<close> and the saved log of \<open>room_2\<close> still ends
  in "Hi B".
\<close>

theorem stale_reply_reverts_other_preview:
  "render (Some demoUser) (Some demoUser) demoWorld = Some demoEnv
   \<and> snd (handleImageUpload_onload demoEnv ''cat.png'' ''data:image/png;base64,AAAA''
             2000 ''t2'' demoWorld) = [catMessage]
   \<and> mountChatInterface (selectChatroom otherRoom (onBack staleSent)) = Some staleOpened
   \<and> render (Some demoUser) (Some demoUser) (setInputValue 1 ''Hi B'' staleOpened) = Some otherEnv
   \<and> map (\<lambda>r. (c_id r, c_lastMessage r, c_lastMessageTime r)) (w_chatrooms staleChatted)
       = [(''room_2'', Some ''Hi B'', Some ''t25''),
          (''room_1'', Some ''Shared an image: cat.png'', Some ''t2'')]
   \<and> c_id (e_chatroom demoEnv) = ''room_1''
   \<and> map (\<lambda>r. (c_id r, c_lastMessage r, c_lastMessageTime r)) (w_chatrooms staleReplied)
       = [(''room_2'', Some ''earlier'', Some ''t0''),
          (''room_1'',
           Some (substring0 100 ''I can see you've shared an image! While I can't analyze images in this demo, I'd be happy to help you with any questions about it.''),
           Some ''t3'')]
   \<and> getItem ''chatrooms_user_1'' (w_localStorage staleReplied) = Some (RoomsText (w_chatrooms staleReplied))
   \<and> getItem ''messages_room_2'' (w_localStorage staleReplied) = Some (MsgsText [hiMessage])"
proof -
  have captured: "snd (handleImageUpload_onload demoEnv ''cat.png'' ''data:image/png;base64,AAAA''
             2000 ''t2'' demoWorld) = [catMessage]"
    by (simp add: handleImageUpload_onload_def demoEnv_def demoRoom_def catMessage_def
        toString.simps digitChar_def Let_def)
  have opened: "mountChatInterface (selectChatroom otherRoom (onBack staleSent)) = Some staleOpened"
    unfolding staleOpened_def staleSent_eq
    by (simp add: mountChatInterface_def selectChatroom_def onBack_def getItem_def
        messagesKey_def otherRoom_def)
  have rendered: "render (Some demoUser) (Some demoUser) (setInputValue 1 ''Hi B'' staleOpened) = Some otherEnv"
    unfolding staleOpened_def staleSent_eq
    by (simp add: render_def setInputValue_def updateView_def newView_def selectChatroom_def
        onBack_def otherEnv_def)
  have replied: "w_chatrooms staleReplied =
      [otherRoom,
       demoRoom\<lparr>c_lastMessage := Some (substring0 100 ''I can see you've shared an image! While I can't analyze images in this demo, I'd be happy to help you with any questions about it.''),
                 c_lastMessageTime := Some ''t3''\<rparr>]"
    "getItem ''chatrooms_user_1'' (w_localStorage staleReplied) = Some (RoomsText (w_chatrooms staleReplied))"
    "getItem ''messages_room_2'' (w_localStorage staleReplied) = Some (MsgsText [hiMessage])"
    unfolding staleReplied_def staleChatted_eq
    by (simp_all add: demoEnv_def demoRoom_def otherRoom_def demoUser_def
        handleImageUpload_timeout_def saveMessages_def onUpdateChatroom_def saveChatrooms_def
        setIsTyping_def setMessages_def updateView_def getItem_def
        chatroomsKey_def messagesKey_def Let_def)
  show ?thesis
    using render_demoWorld captured opened rendered replied(2,3)
    by (simp add: replied(1) staleChatted_eq) (simp add: otherRoom_def demoRoom_def demoEnv_def)
qed

text \<open>
  Claim C5, amended. \<open>saveMessages\<close> is the only function that writes a message list.
  Called by a signed-in dashboard with a non-empty list, it writes the list under the
  chatroom's key and, in the same call, replaces every chatroom with the id of chatroom
  \<open>X\<close> in the list that \<open>onUpdateChatroom\<close> captured by \<open>X\<close> with \<open>lastMessage\<close> the
  first 100 characters of the content of the list's last message and \<open>lastMessageTime\<close>
  its timestamp, and saves that list. The functions of the current render have captured
  the current list; when the captured list is the current one, the list keeps its length
  and order and the chatrooms with another id are unchanged.
\<close>

theorem saveMessages_updates_preview:
  fixes env :: Closure and msgs :: "Message list" and w :: World and u :: User
  defines "X \<equiv> e_chatroom env"
    and "rooms \<equiv> e_dashRooms env"
    and "w' \<equiv> saveMessages env msgs w"
    and "p \<equiv> (e_chatroom env)\<lparr>c_lastMessage := Some (take 100 (m_content (last msgs))),
                               c_lastMessageTime := Some (m_timestamp (last msgs))\<rparr>"
  assumes nonempty: "msgs \<noteq> []" and session: "e_dashUser env = Some u"
  shows "getItem (messagesKey (c_id X)) (w_localStorage w') = Some (MsgsText msgs)
       \<and> w_chatrooms w' = map (\<lambda>r. if c_id r = c_id X then p else r) rooms
       \<and> getItem (chatroomsKey u) (w_localStorage w') = Some (RoomsText (w_chatrooms w'))
       \<and> (render (Some u) chatUser w = Some env \<longrightarrow> rooms = w_chatrooms w)
       \<and> (rooms = w_chatrooms w \<longrightarrow>
            length (w_chatrooms w') = length (w_chatrooms w)
            \<and> (\<forall>i<length (w_chatrooms w).
                  c_id (w_chatrooms w ! i) = c_id X \<longrightarrow> w_chatrooms w' ! i = p)
            \<and> (\<forall>i<length (w_chatrooms w).
                  c_id (w_chatrooms w ! i) \<noteq> c_id X \<longrightarrow> w_chatrooms w' ! i = w_chatrooms w ! i))"
proof -
  have log: "getItem (messagesKey (c_id X)) (w_localStorage w') = Some (MsgsText msgs)"
    using saveMessages_writes_log [of env "butlast msgs" "last msgs" w] nonempty
    by (simp add: X_def w'_def)
  have rooms': "w_chatrooms w' = map (\<lambda>r. if c_id r = c_id X then p else r) rooms"
    by (simp add: w'_def X_def rooms_def p_def saveMessages_nonempty [OF nonempty]
        onUpdateChatroom_def session saveChatrooms_Some)
  have saved: "getItem (chatroomsKey u) (w_localStorage w') = Some (RoomsText (w_chatrooms w'))"
    by (simp add: w'_def saveMessages_nonempty [OF nonempty] onUpdateChatroom_def session
        saveChatrooms_Some getItem_setItem)
  have current: "rooms = w_chatrooms w" if "render (Some u) chatUser w = Some env"
    using render_captures_current_state(1) [OF that] by (simp add: rooms_def)
  show ?thesis
    using log saved current by (simp add: rooms')
qed

theorem saveMessages_updates_preview_witness:
  "render (Some demoUser) (Some demoUser) demoWorld = Some demoEnv
   \<and> w_chatrooms demoWorld = [otherRoom, demoRoom]
   \<and> w_chatrooms (saveMessages demoEnv [helloMessage] demoWorld)
       = [otherRoom, demoRoom\<lparr>c_lastMessage := Some ''Hello'', c_lastMessageTime := Some ''t2''\<rparr>]
   \<and> getItem ''messages_room_1'' (w_localStorage (saveMessages demoEnv [helloMessage] demoWorld))
       = Some (MsgsText [helloMessage])
   \<and> getItem ''chatrooms_user_1'' (w_localStorage (saveMessages demoEnv [helloMessage] demoWorld))
       = Some (RoomsText [otherRoom, demoRoom\<lparr>c_lastMessage := Some ''Hello'', c_lastMessageTime := Some ''t2''\<rparr>])"
proof -
  have s: "e_dashUser demoEnv = Some demoUser"
    by (simp add: demoEnv_def)
  have n: "[helloMessage] \<noteq> []" by simp
  have k: "chatroomsKey demoUser = ''chatrooms_user_1''" "messagesKey (c_id demoRoom) = ''messages_room_1''"
    by (simp_all add: chatroomsKey_def demoUser_def messagesKey_def demoRoom_def)
  have e: "e_chatroom demoEnv = demoRoom" "e_dashRooms demoEnv = [otherRoom, demoRoom]"
    "w_chatrooms demoWorld = [otherRoom, demoRoom]"
    by (simp_all add: demoEnv_def demoWorld_def)
  have ids: "c_id otherRoom \<noteq> c_id demoRoom" "m_content helloMessage = ''Hello''"
    "m_timestamp helloMessage = ''t2''"
    by (simp_all add: otherRoom_def demoRoom_def helloMessage_def)
  show ?thesis
    using saveMessages_updates_preview [OF n s, of demoWorld "Some demoUser"] ids render_demoWorld
    by (simp add: k e s)
qed

lemma digitChar_inj: "a < 10 \<Longrightarrow> b < 10 \<Longrightarrow> digitChar a = digitChar b \<Longrightarrow> a = b"
proof -
  assume "a < 10" "b < 10" and eq: "digitChar a = digitChar b"
  then have "a \<in> {0, 1, 2, 3, 4, 5, 6, 7, 8, 9}" "b \<in> {0, 1, 2, 3, 4, 5, 6, 7, 8, 9}" by auto
  with eq show ?thesis by (auto simp: digitChar_def)
qed

lemma toString_nonempty: "toString n \<noteq> []"
  by (subst toString.simps) simp

lemma toString_inj: "toString a = toString b \<Longrightarrow> a = b"
proof (induction a arbitrary: b rule: toString.induct)
  case (1 a)
  show ?case
  proof (cases "a < 10")
    case True
    show ?thesis
    proof (cases "b < 10")
      case b: True
      have "digitChar a = digitChar b"
        using "1.prems" True b by (simp add: toString.simps)
      then show ?thesis using True b by (rule digitChar_inj [rotated 2])
    next
      case b: False
      have "[digitChar a] = toString (b div 10) @ [digitChar (b mod 10)]"
        using "1.prems" True b by (simp add: toString.simps [of a] toString.simps [of b])
      then show ?thesis using toString_nonempty [of "b div 10"] by simp
    qed
  next
    case False
    show ?thesis
    proof (cases "b < 10")
      case b: True
      have "toString (a div 10) @ [digitChar (a mod 10)] = [digitChar b]"
        using "1.prems" False b by (simp add: toString.simps [of a] toString.simps [of b])
      then show ?thesis using toString_nonempty [of "a div 10"] by simp
    next
      case b: False
      have "toString (a div 10) @ [digitChar (a mod 10)] = toString (b div 10) @ [digitChar (b mod 10)]"
        using "1.prems" False b by (simp add: toString.simps [of a] toString.simps [of b])
      then have "toString (a div 10) = toString (b div 10)" "digitChar (a mod 10) = digitChar (b mod 10)"
        by simp_all
      then have "a div 10 = b div 10" "a mod 10 = b mod 10"
        using "1.IH" [OF False] digitChar_inj [of "a mod 10" "b mod 10"] by simp_all
      then show ?thesis by (metis div_mult_mod_eq)
    qed
  qed
qed

text \<open>
  Claim C6, as stated, fails in the unique id: the id is made of the clock reading alone,
  so two chatrooms created at one reading have the same id.
\<close>

theorem same_clock_same_id:
  "map c_id (w_chatrooms twiceCreated) = [''room_1000'', ''room_1000'']
   \<and> map c_name (w_chatrooms twiceCreated) = [''Budget'', ''Trip Planning'']"
  by (simp add: twiceCreated_def tripStart_def demoUser_def createChatroom_def saveChatrooms_def
      onBack_def trim_def isSpace_def toString.simps digitChar_def Let_def)

text \<open>
  Claim C6, amended. \<open>createChatroom\<close> works on the trimmed name. With a name that trims to
  the empty string (the empty name and the name of three spaces among them) it returns at
  its guard without raising or recording any error: the state and the storage are as
  before, no chatroom is added. Otherwise, for a signed-in user, the new chatroom has the
  trimmed name (\<open>Demo\<close> for \<open>" Demo "\<close>), the id \<open>room_\<close> followed by the clock reading
  \<open>Date.now()\<close>, and \<open>createdAt\<close> the current time; it is put in front of the list, the list
  is saved under the user's key, and the chatroom is selected. Two chatrooms have the same
  id exactly when they were created at the same clock reading.
\<close>

theorem createChatroom_effect:
  fixes w :: World and u :: User
  defines "typed name \<equiv> w\<lparr>w_newChatroomName := name\<rparr>"
    and "room name ms now \<equiv>
           \<lparr>c_id = ''room_'' @ toString ms, c_name = trim name, c_lastMessage = None,
            c_lastMessageTime = None, c_userId = u_id u, c_createdAt = now\<rparr>"
  shows "createChatroom usr ms now (typed []) = typed []
       \<and> createChatroom usr ms now (typed ''   '') = typed ''   ''
       \<and> (trim name = [] \<longrightarrow> createChatroom usr ms now (typed name) = typed name)
       \<and> trim '' Demo '' = ''Demo''
       \<and> (trim name \<noteq> [] \<longrightarrow>
            createChatroom (Some u) ms now (typed name) =
              w\<lparr>w_localStorage :=
                    setItem (chatroomsKey u) (RoomsText (room name ms now # w_chatrooms w))
                      (w_localStorage w),
                w_chatrooms := room name ms now # w_chatrooms w,
                w_newChatroomName := [], w_isCreating := False,
                w_selectedChatroom := Some (room name ms now)\<rparr>
            \<and> getItem (chatroomsKey u) (w_localStorage (createChatroom (Some u) ms now (typed name)))
                = Some (RoomsText (room name ms now # w_chatrooms w)))
       \<and> ((c_id (room name ms now) = c_id (room name' ms' now')) = (ms = ms'))"
proof -
  have blank: "trim [] = []" "trim ''   '' = []"
    by (simp_all add: trim_def isSpace_def)
  have rejected: "createChatroom usr ms now (typed name) = typed name" if "trim name = []" for name
    using that by (simp add: createChatroom_def typed_def split: option.split)
  have demo: "trim '' Demo '' = ''Demo''"
    by (simp add: trim_def isSpace_def)
  have created: "createChatroom (Some u) ms now (typed name) =
              w\<lparr>w_localStorage :=
                    setItem (chatroomsKey u) (RoomsText (room name ms now # w_chatrooms w))
                      (w_localStorage w),
                w_chatrooms := room name ms now # w_chatrooms w,
                w_newChatroomName := [], w_isCreating := False,
                w_selectedChatroom := Some (room name ms now)\<rparr>" if "trim name \<noteq> []"
    using that by (simp add: createChatroom_def typed_def room_def Let_def saveChatrooms_Some)
  have ids: "(c_id (room name ms now) = c_id (room name' ms' now')) = (ms = ms')"
    using toString_inj [of ms ms'] by (auto simp: room_def)
  show ?thesis
    using blank rejected demo created ids by (simp add: getItem_setItem)
qed

theorem createChatroom_effect_witness:
  "createChatroom (Some demoUser) 2000 ''t2'' (demoWorld\<lparr>w_newChatroomName := ''   ''\<rparr>)
     = demoWorld\<lparr>w_newChatroomName := ''   ''\<rparr>
   \<and> trim [CHR 0xA0, CHR 0x09] = []
   \<and> createChatroom (Some demoUser) 2000 ''t2'' (demoWorld\<lparr>w_newChatroomName := [CHR 0xA0, CHR 0x09]\<rparr>)
     = demoWorld\<lparr>w_newChatroomName := [CHR 0xA0, CHR 0x09]\<rparr>
   \<and> w_chatrooms (createChatroom (Some demoUser) 2000 ''t2'' (demoWorld\<lparr>w_newChatroomName := '' Demo ''\<rparr>))
       = [\<lparr>c_id = ''room_2000'', c_name = ''Demo'', c_lastMessage = None, c_lastMessageTime = None,
           c_userId = Some ''user_1'', c_createdAt = ''t2''\<rparr>, otherRoom, demoRoom]
   \<and> getItem ''chatrooms_user_1''
        (w_localStorage (createChatroom (Some demoUser) 2000 ''t2'' (demoWorld\<lparr>w_newChatroomName := '' Demo ''\<rparr>)))
       = Some (RoomsText [\<lparr>c_id = ''room_2000'', c_name = ''Demo'', c_lastMessage = None,
                           c_lastMessageTime = None, c_userId = Some ''user_1'', c_createdAt = ''t2''\<rparr>,
                          otherRoom, demoRoom])"
proof -
  have t: "trim '' Demo '' = ''Demo''" "trim ''   '' = []" "trim [CHR 0xA0, CHR 0x09] = []"
    by (simp_all add: trim_def isSpace_def)
  have n: "toString 2000 = ''2000''"
    by (simp add: toString.simps digitChar_def)
  have k: "chatroomsKey demoUser = ''chatrooms_user_1''" "u_id demoUser = Some ''user_1''"
    by (simp_all add: chatroomsKey_def demoUser_def)
  have rooms: "w_chatrooms demoWorld = [otherRoom, demoRoom]"
    by (simp add: demoWorld_def)
  show ?thesis
    using createChatroom_effect [of "Some demoUser" 2000 "''t2''" demoWorld "''   ''" demoUser]
      createChatroom_effect [of "Some demoUser" 2000 "''t2''" demoWorld "[CHR 0xA0, CHR 0x09]" demoUser]
      createChatroom_effect [of "Some demoUser" 2000 "''t2''" demoWorld "'' Demo ''" demoUser]
    by (simp add: t n k rooms getItem_setItem)
qed

subsection \<open>A conversation in a fresh chatroom\<close>

lemmas scenario_defs =
  tripStart_def tripRoom_def tripOpened_def tripEnv_def tripHello_def tripReply_def
  demoUser_def createChatroom_def saveChatrooms_def newView_def mountChatInterface_def
  render_def setInputValue_def setIsTyping_def setMessages_def updateView_def
  sendMessage_def sendMessage_timeout_def saveMessages_def onUpdateChatroom_def
  chatroomsKey_def messagesKey_def substring0_def selectChatroom_def onBack_def
  deleteChatroom_def handleImageUpload_def handleImageUpload_onload_def
  handleImageUpload_timeout_def
  getItem_def removeItem_def trim_def isSpace_def toString.simps digitChar_def Let_def

lemma tripOpened_eq:
  "tripOpened =
     \<lparr>w_localStorage = [(''otpUser'', UserText (Some ''user_1'') (Some ''5551234'') (Some ''+1'')),
                         (''chatrooms_user_1'', RoomsText [tripRoom])],
      w_chatrooms = [tripRoom], w_selectedChatroom = Some tripRoom, w_isCreating = False,
      w_newChatroomName = [],
      w_view = Some \<lparr>v_instance = 0, v_messages = [], v_inputValue = [], v_isTyping = False\<rparr>,
      w_mounts = 1\<rparr>"
  by (simp add: scenario_defs)

lemma tripSent_eq:
  "tripSent =
     \<lparr>w_localStorage = [(''otpUser'', UserText (Some ''user_1'') (Some ''5551234'') (Some ''+1'')),
                         (''chatrooms_user_1'',
                          RoomsText [tripRoom\<lparr>c_lastMessage := Some ''Hello'', c_lastMessageTime := Some ''t2''\<rparr>]),
                         (''messages_room_1000'', MsgsText [tripHello])],
      w_chatrooms = [tripRoom\<lparr>c_lastMessage := Some ''Hello'', c_lastMessageTime := Some ''t2''\<rparr>],
      w_selectedChatroom = Some tripRoom, w_isCreating = False,
      w_newChatroomName = [],
      w_view = Some \<lparr>v_instance = 0, v_messages = [tripHello], v_inputValue = [], v_isTyping = True\<rparr>,
      w_mounts = 1\<rparr>"
  unfolding tripSent_def tripOpened_eq
  by (simp add: tripEnv_def tripRoom_def tripHello_def demoUser_def
      sendMessage_def saveMessages_def onUpdateChatroom_def saveChatrooms_def
      setInputValue_def setIsTyping_def setMessages_def updateView_def
      chatroomsKey_def messagesKey_def substring0_def trim_def isSpace_def
      toString.simps digitChar_def Let_def)

text \<open>
  Claim C3 at this scenario. The user message is saved at once and the preview shows
  it. When the timeout fires, the reply is appended to the messages of the mounted view
  only: \<open>localStorage\<close> and the chatroom list are untouched, the saved log still holds the
  user message alone, and the chat view opened again shows that one message. (The reply
  to an image is saved through \<open>saveMessages\<close>, as the fallback reply would be.)
\<close>

theorem text_reply_is_not_saved:
  "mountChatInterface (createChatroom (Some demoUser) 1000 ''t1'' tripStart) = Some tripOpened
   \<and> render (Some demoUser) (Some demoUser) (setInputValue 0 ''Hello'' tripOpened) = Some tripEnv
   \<and> snd (sendMessage tripEnv 2000 ''t2'' (setInputValue 0 ''Hello'' tripOpened)) = Some tripEnv
   \<and> getItem ''messages_room_1000'' (w_localStorage tripSent) = Some (MsgsText [tripHello])
   \<and> map c_lastMessage (w_chatrooms tripSent) = [Some ''Hello'']
   \<and> map_option v_messages (w_view tripReplied) = Some [tripHello, tripReply]
   \<and> getItem ''messages_room_1000'' (w_localStorage tripReplied) = Some (MsgsText [tripHello])
   \<and> w_localStorage tripReplied = w_localStorage tripSent
   \<and> w_chatrooms tripReplied = w_chatrooms tripSent
   \<and> map_option (\<lambda>w. map_option v_messages (w_view w))
        (mountChatInterface (selectChatroom tripRoom (onBack tripReplied)))
       = Some (Some [tripHello])"
proof -
  have created: "mountChatInterface (createChatroom (Some demoUser) 1000 ''t1'' tripStart) = Some tripOpened"
    by (simp add: scenario_defs)
  have rendered: "render (Some demoUser) (Some demoUser) (setInputValue 0 ''Hello'' tripOpened) = Some tripEnv"
    unfolding tripOpened_eq
    by (simp add: render_def setInputValue_def updateView_def tripEnv_def)
  have scheduled: "snd (sendMessage tripEnv 2000 ''t2'' (setInputValue 0 ''Hello'' tripOpened)) = Some tripEnv"
    by (simp add: sendMessage_def tripEnv_def trim_def isSpace_def Let_def)
  have replied: "tripReplied = tripSent\<lparr>w_view := Some \<lparr>v_instance = 0, v_messages = [tripHello, tripReply],
      v_inputValue = [], v_isTyping = False\<rparr>\<rparr>"
    unfolding tripReplied_def tripSent_eq
    by (simp add: sendMessage_timeout_def setMessages_def setIsTyping_def updateView_def
        tripEnv_def tripRoom_def tripReply_def toString.simps digitChar_def Let_def)
  have reopened: "map_option (\<lambda>w. map_option v_messages (w_view w))
        (mountChatInterface (selectChatroom tripRoom (onBack tripReplied)))
       = Some (Some [tripHello])"
    unfolding replied tripSent_eq
    by (simp add: mountChatInterface_def selectChatroom_def onBack_def newView_def getItem_def
        messagesKey_def tripRoom_def)
  show ?thesis
    using created rendered scheduled reopened
    by (simp add: replied) (simp add: tripSent_eq getItem_def)
qed

subsection \<open>A reply that fires after its chatroom was deleted\<close>

lemma imgDeleted_eq:
  "imgDeleted =
     \<lparr>w_localStorage = [(''otpUser'', UserText (Some ''user_1'') (Some ''5551234'') (Some ''+1'')),
                         (''chatrooms_user_1'', RoomsText [])],
      w_chatrooms = [], w_selectedChatroom = None, w_isCreating = False,
      w_newChatroomName = [], w_view = None, w_mounts = 1\<rparr>"
  unfolding imgDeleted_def imgSent_def tripOpened_eq
  by (simp add: imgEnv_def tripEnv_def tripRoom_def demoUser_def
      handleImageUpload_onload_def saveMessages_def onUpdateChatroom_def saveChatrooms_def
      setIsTyping_def setMessages_def updateView_def deleteChatroom_def onBack_def
      chatroomsKey_def messagesKey_def substring0_def removeItem_def
      toString.simps digitChar_def Let_def)

text \<open>
  Claim C4, as stated, fails on the image path. After the deletion the chatroom list is
  empty and the chatroom has no saved log; the reply's timeout then writes the log again
  (image message and reply) and saves the chatroom list it captured, which brings the
  deleted chatroom back.
\<close>

theorem image_reply_writes_after_delete:
  "render (Some demoUser) (Some demoUser) tripOpened = Some imgEnv
   \<and> handleImageUpload imgEnv (Some (''cat.png'', ''data:image/png;base64,AAAA''))
       = Some (imgEnv, ''cat.png'', ''data:image/png;base64,AAAA'')
   \<and> snd (handleImageUpload_onload imgEnv ''cat.png'' ''data:image/png;base64,AAAA''
             2000 ''t2'' tripOpened) = [imgMessage]
   \<and> w_chatrooms imgDeleted = []
   \<and> getItem ''messages_room_1000'' (w_localStorage imgDeleted) = None
   \<and> getItem ''messages_room_1000'' (w_localStorage imgReplied)
       = Some (MsgsText [imgMessage,
            \<lparr>m_id = ''msg_3500_ai_img'',
             m_content = ''I can see you've shared an image! While I can't analyze images in this demo, I'd be happy to help you with any questions about it.'',
             m_isUser = False, m_timestamp = ''t3'', m_chatroomId = ''room_1000'',
             m_imageUrl = None\<rparr>])
   \<and> map c_id (w_chatrooms imgReplied) = [''room_1000'']
   \<and> getItem ''chatrooms_user_1'' (w_localStorage imgReplied) = Some (RoomsText (w_chatrooms imgReplied))"
proof -
  have rendered: "render (Some demoUser) (Some demoUser) tripOpened = Some imgEnv"
    unfolding tripOpened_eq by (simp add: render_def imgEnv_def tripEnv_def)
  have started: "handleImageUpload imgEnv (Some (''cat.png'', ''data:image/png;base64,AAAA''))
       = Some (imgEnv, ''cat.png'', ''data:image/png;base64,AAAA'')"
    by (simp add: handleImageUpload_def imgEnv_def tripEnv_def)
  have loaded: "snd (handleImageUpload_onload imgEnv ''cat.png'' ''data:image/png;base64,AAAA''
             2000 ''t2'' tripOpened) = [imgMessage]"
    by (simp add: handleImageUpload_onload_def imgEnv_def tripEnv_def tripRoom_def imgMessage_def
        toString.simps digitChar_def Let_def)
  have replied: "w_localStorage imgReplied =
      [(''otpUser'', UserText (Some ''user_1'') (Some ''5551234'') (Some ''+1'')),
       (''chatrooms_user_1'', RoomsText (w_chatrooms imgReplied)),
       (''messages_room_1000'', MsgsText [imgMessage,
            \<lparr>m_id = ''msg_3500_ai_img'',
             m_content = ''I can see you've shared an image! While I can't analyze images in this demo, I'd be happy to help you with any questions about it.'',
             m_isUser = False, m_timestamp = ''t3'', m_chatroomId = ''room_1000'',
             m_imageUrl = None\<rparr>])]"
    "map c_id (w_chatrooms imgReplied) = [''room_1000'']"
    unfolding imgReplied_def imgDeleted_eq
    by (simp_all add: imgEnv_def tripEnv_def tripRoom_def demoUser_def
        handleImageUpload_timeout_def saveMessages_def onUpdateChatroom_def saveChatrooms_def
        setIsTyping_def setMessages_def updateView_def chatroomsKey_def messagesKey_def
        substring0_def toString.simps digitChar_def Let_def)
  show ?thesis
    using rendered started loaded replied(2)
    by (simp add: replied(1) getItem_def) (simp add: imgDeleted_eq getItem_def)
qed

text \<open>
  Claim C4, amended. The timeout of a text reply never writes to \<open>localStorage\<close> and never
  changes the chatroom list, in any state. After the user has left the chat view and
  deleted the chatroom (\<open>wd\<close>), the chatroom has no saved log and the text reply's timeout
  changes nothing at all. The timeout of an image reply has no such guard: in that same
  state it writes the captured messages followed by the reply under the key of the deleted
  chatroom.
\<close>

theorem reply_after_delete:
  fixes env :: Closure and w :: World and u :: User
  defines "X \<equiv> c_id (e_chatroom env)"
    and "wd \<equiv> deleteChatroom (Some u) (c_id (e_chatroom env)) (onBack w)"
  shows "w_localStorage (sendMessage_timeout env ms now w) = w_localStorage w
       \<and> w_chatrooms (sendMessage_timeout env ms now w) = w_chatrooms w
       \<and> getItem (messagesKey X) (w_localStorage wd) = None
       \<and> sendMessage_timeout env ms now wd = wd
       \<and> getItem (messagesKey X)
            (w_localStorage (handleImageUpload_timeout env newMessages ms' now' wd))
           = Some (MsgsText (newMessages @
               [\<lparr>m_id = ''msg_'' @ toString ms' @ ''_ai_img'',
                 m_content = ''I can see you've shared an image! While I can't analyze images in this demo, I'd be happy to help you with any questions about it.'',
                 m_isUser = False, m_timestamp = now', m_chatroomId = X, m_imageUrl = None\<rparr>]))"
proof -
  have frame: "w_localStorage (sendMessage_timeout env ms now w) = w_localStorage w"
    "w_chatrooms (sendMessage_timeout env ms now w) = w_chatrooms w" for w
    by (simp_all add: sendMessage_timeout_def setMessages_def setIsTyping_def updateView_frame Let_def)
  have unmounted: "w_view wd = None"
    by (simp add: wd_def deleteChatroom_def onBack_def saveChatrooms_Some Let_def)
  have gone: "getItem (messagesKey X) (w_localStorage wd) = None"
    by (simp add: wd_def X_def deleteChatroom_def onBack_def saveChatrooms_Some Let_def
        getItem_removeItem)
  have noop: "sendMessage_timeout env ms now wd = wd"
    by (simp add: sendMessage_timeout_def setMessages_def setIsTyping_def
        updateView_unmounted unmounted Let_def)
  have written: "getItem (messagesKey X)
            (w_localStorage (handleImageUpload_timeout env newMessages ms' now' wd))
           = Some (MsgsText (newMessages @
               [\<lparr>m_id = ''msg_'' @ toString ms' @ ''_ai_img'',
                 m_content = ''I can see you've shared an image! While I can't analyze images in this demo, I'd be happy to help you with any questions about it.'',
                 m_isUser = False, m_timestamp = now', m_chatroomId = X, m_imageUrl = None\<rparr>]))"
    by (simp add: handleImageUpload_timeout_def Let_def setIsTyping_def updateView_frame
        X_def saveMessages_writes_log)
  show ?thesis
    using frame gone noop written by simp
qed

theorem reply_after_delete_witness:
  "sendMessage_timeout tripEnv 3000 ''t3'' (deleteChatroom (Some demoUser) ''room_1000'' (onBack tripSent))
     = deleteChatroom (Some demoUser) ''room_1000'' (onBack tripSent)
   \<and> getItem ''messages_room_1000''
        (w_localStorage (deleteChatroom (Some demoUser) ''room_1000'' (onBack tripSent))) = None
   \<and> getItem ''messages_room_1000'' (w_localStorage tripSent) = Some (MsgsText [tripHello])"
proof -
  have x: "c_id (e_chatroom tripEnv) = ''room_1000''" "messagesKey ''room_1000'' = ''messages_room_1000''"
    by (simp_all add: tripEnv_def tripRoom_def messagesKey_def)
  show ?thesis
    using reply_after_delete [of tripEnv 3000 "''t3''" tripSent demoUser "[]" 0 "''t3''"]
    by (simp add: x) (simp add: tripSent_eq getItem_def)
qed

end
